theory Spec2Isabelle
  imports Main "HOL-Library.Word" "HOL-Library.Char_ord"
begin

section \<open>C strings\<close>

text \<open>
  A C string is modelled by the list of its characters before the terminating NUL.
  \<open>c_at s i\<close> is the byte the C expression \<open>s[i]\<close> reads: the \<open>i\<close>-th character, and
  the terminator at \<open>i = length s\<close>. Comparisons of \<open>char\<close> values use the byte order
  of \<^theory_text>\<open>Char_ord\<close>; every range the code tests lies below 128, so the result is the
  same whether the platform's \<open>char\<close> is signed or unsigned.
\<close>

definition c_at :: "string \<Rightarrow> nat \<Rightarrow> char" where
  "c_at s i = (if i < length s then s ! i else CHR 0x00)"

text \<open>What the C string functions see of a buffer: the bytes before the first NUL.\<close>

definition c_str :: "char list \<Rightarrow> string" where
  "c_str bs = takeWhile (\<lambda>c. c \<noteq> CHR 0x00) bs"

text \<open>\<open>tolower\<close> and \<open>strcasecmp\<close> of the C library, in the C locale.\<close>

definition tolower :: "char \<Rightarrow> char" where
  "tolower c = (if CHR ''A'' \<le> c \<and> c \<le> CHR ''Z'' then char_of (of_char c + (32 :: nat)) else c)"

fun strcasecmp :: "string \<Rightarrow> string \<Rightarrow> int" where
  "strcasecmp [] [] = 0"
| "strcasecmp [] (b # bs) = - int (of_char (tolower b))"
| "strcasecmp (a # as) [] = int (of_char (tolower a))"
| "strcasecmp (a # as) (b # bs) =
     (if tolower a = tolower b then strcasecmp as bs
      else int (of_char (tolower a)) - int (of_char (tolower b)))"

section \<open>The environment of the daemon\<close>

text \<open>
  Result codes of \<open><ldap.h>\<close> (OpenLDAP), scopes, and the address families of
  \<open><sys/socket.h>\<close> (Linux). They belong to the platform, not to the repository.
\<close>

definition LDAP_SUCCESS :: int where "LDAP_SUCCESS = 0"
definition LDAP_INVALID_SYNTAX :: int where "LDAP_INVALID_SYNTAX = 21"
definition LDAP_NO_SUCH_OBJECT :: int where "LDAP_NO_SUCH_OBJECT = 32"
definition LDAP_INVALID_CREDENTIALS :: int where "LDAP_INVALID_CREDENTIALS = 49"
definition LDAP_UNAVAILABLE :: int where "LDAP_UNAVAILABLE = 52"
definition LDAP_LOCAL_ERROR :: int where "LDAP_LOCAL_ERROR = - 2"
definition LDAP_NO_RESULTS_RETURNED :: int where "LDAP_NO_RESULTS_RETURNED = - 14"

definition LDAP_SCOPE_BASE :: int where "LDAP_SCOPE_BASE = 0"
definition LDAP_SCOPE_SUBTREE :: int where "LDAP_SCOPE_SUBTREE = 2"

definition AF_INET :: int where "AF_INET = 2"
definition AF_INET6 :: int where "AF_INET6 = 10"

text \<open>
  \<open>struct in_addr\<close> is four bytes and \<open>struct in6_addr\<close> sixteen, both in network
  byte order.
\<close>

datatype in_addr = IN_ADDR char char char char
datatype in6_addr = IN6_ADDR in_addr in_addr in_addr in_addr

fun in_addr_bytes :: "in_addr \<Rightarrow> char list" where
  "in_addr_bytes (IN_ADDR a b c d) = [a, b, c, d]"

fun in6_addr_bytes :: "in6_addr \<Rightarrow> char list" where
  "in6_addr_bytes (IN6_ADDR p q r s) =
     in_addr_bytes p @ in_addr_bytes q @ in_addr_bytes r @ in_addr_bytes s"

text \<open>
  A directory session carries the credentials it binds with (\<open>MYLDAP_SESSION\<close>); searches
  and entries are opaque handles, \<open>None\<close> standing for the \<open>NULL\<close> pointer.
\<close>

record session =
  session_binddn :: "string option"
  session_bindpw :: "string option"

record ldap_config =
  ldc_rootpwmoddn :: "string option"
  ldc_rootpwmodpw :: "string option"
  ldc_pam_authz_search :: "string option"
  ldc_bases :: "nat \<Rightarrow> string option"

text \<open>
  Everything the three source files use and do not define is a field of the environment:
  the protocol constants of \<open>nslcd.h\<close>, \<open>LOGIN_NAME_MAX\<close> of \<open><limits.h>\<close> (\<open>None\<close>
  where the platform does not define it), the configuration \<open>nslcd_cfg\<close>, the attribute
  map, and the functions of \<open>myldap.c\<close>, \<open>passwd.c\<close>, \<open>shadow.c\<close>, \<open>expr.c\<close>, libldap
  and the C library. A function that returns a pointer and stores a result code through
  \<open>int *rcp\<close> is a function to the pair of both.
\<close>

record env =
  LOGIN_NAME_MAX :: "nat option"
  HOST_NAME_MAX :: nat
  NSLCD_VERSION :: int
  NSLCD_ACTION_PAM_AUTHC :: int
  NSLCD_ACTION_PAM_AUTHZ :: int
  NSLCD_ACTION_PAM_PWMOD :: int
  NSLCD_RESULT_BEGIN :: int
  NSLCD_RESULT_END :: int
  NSLCD_PAM_SUCCESS :: int
  NSLCD_PAM_PERM_DENIED :: int
  NSLCD_PAM_AUTH_ERR :: int
  NSLCD_PAM_AUTHINFO_UNAVAIL :: int
  nslcd_cfg :: ldap_config
  attmap_passwd_uid :: string
  myldap_create_session :: "session option"
  myldap_search :: "session \<Rightarrow> string option \<Rightarrow> int \<Rightarrow> string \<Rightarrow> string list \<Rightarrow> nat option \<times> int"
  myldap_get_entry :: "nat \<Rightarrow> nat option \<times> int"
  myldap_cpy_dn :: "nat \<Rightarrow> string \<Rightarrow> nat \<Rightarrow> string"
  myldap_get_rdn_value :: "nat \<Rightarrow> string \<Rightarrow> string option"
  myldap_get_values :: "nat \<Rightarrow> string \<Rightarrow> string list option"
  myldap_passwd :: "session \<Rightarrow> string \<Rightarrow> string option \<Rightarrow> string \<Rightarrow> int"
  myldap_escape :: "string \<Rightarrow> nat \<Rightarrow> string option"
  uid2entry :: "session \<Rightarrow> string \<Rightarrow> nat option \<times> int"
  lookup_dn2uid :: "session \<Rightarrow> string \<Rightarrow> nat \<Rightarrow> string option \<times> int"
  update_lastchange :: "session \<Rightarrow> string \<Rightarrow> int"
  expr_parse :: "string \<Rightarrow> nat \<Rightarrow> (string \<Rightarrow> string option) \<Rightarrow> string option"
  ldap_err2string :: "int \<Rightarrow> string"
  malloc :: "nat \<Rightarrow> bool"
  gethostname :: "nat \<Rightarrow> string option"
  gethostbyname :: "string \<Rightarrow> (string \<times> string list) option"
  inet_pton4 :: "string \<Rightarrow> in_addr option"
  inet_pton6 :: "string \<Rightarrow> in6_addr option"

text \<open>The calls a function makes on the directory, in the order it makes them.\<close>

datatype ldap_call =
    Create_session
  | Set_credentials string string
  | Search session "string option" int string
  | Get_entry nat
  | Uid2entry session string
  | Lookup_dn2uid session string
  | Passwd session string "string option" string
  | Update_lastchange session string
  | Session_close session

text \<open>
  A function either returns or dereferences a \<open>NULL\<close> pointer, which ends the process.
\<close>

datatype 'a outcome = Returns 'a | Crashes


section \<open>nslcd/common.c\<close>

subsection \<open>isvalidname\<close>

text \<open>
  The loop \<open>for (i=0;name[i]!='\0';i++)\<close> with its body; \<open>- 1\<close> is the value returned
  when the loop ends, \<open>0\<close> the value of every early return.
\<close>

function isvalidname_loop :: "nat option \<Rightarrow> string \<Rightarrow> nat \<Rightarrow> int" where
  "isvalidname_loop lnm name i =
     (if c_at name i = CHR 0x00 then - 1
      else if (case lnm of Some m \<Rightarrow> i \<ge> m | None \<Rightarrow> False) then 0
      else if (c_at name i \<ge> CHR ''@'' \<and> c_at name i \<le> CHR ''Z'') \<or>
              (c_at name i \<ge> CHR ''a'' \<and> c_at name i \<le> CHR ''z'') \<or>
              (c_at name i \<ge> CHR ''0'' \<and> c_at name i \<le> CHR ''9'') \<or>
              c_at name i = CHR ''.'' \<or> c_at name i = CHR ''_'' \<or> c_at name i = CHR ''$''
           then isvalidname_loop lnm name (i + 1)
      else if i > 0 \<and> (c_at name i = CHR ''-'' \<or> c_at name i = CHR ''~'')
           then isvalidname_loop lnm name (i + 1)
      else if (i > 0 \<and> c_at name (i + 1) \<noteq> CHR 0x00) \<and>
              (c_at name i = CHR 0x5C \<or> c_at name i = CHR '' '')
           then isvalidname_loop lnm name (i + 1)
      else 0)"
  by pat_completeness auto
termination
  by (relation "measure (\<lambda>(lnm, name, i). length name - i)")
     (auto simp: c_at_def split: if_splits)

definition isvalidname :: "env \<Rightarrow> string option \<Rightarrow> int" where
  "isvalidname E name =
     (case name of
        None \<Rightarrow> 0
      | Some s \<Rightarrow> if c_at s 0 = CHR 0x00 then 0 else isvalidname_loop (LOGIN_NAME_MAX E) s 0)"

subsection \<open>The stream and the protocol macros\<close>

text \<open>
  A \<open>TFILE\<close>: the bytes still to be read, the bytes written so far, and the number of
  bytes the stream still accepts (\<open>None\<close>: any number), so that a write can fail as a
  write to a socket can.
\<close>

record tfile =
  rbuf :: "char list"
  wbuf :: "char list"
  wroom :: "nat option"

definition tio_read :: "tfile \<Rightarrow> nat \<Rightarrow> (char list \<times> tfile) option" where
  "tio_read fp n =
     (if n \<le> length (rbuf fp) then Some (take n (rbuf fp), fp\<lparr>rbuf := drop n (rbuf fp)\<rparr>)
      else None)"

definition tio_write :: "tfile \<Rightarrow> char list \<Rightarrow> bool \<times> tfile" where
  "tio_write fp bs =
     (case wroom fp of
        None \<Rightarrow> (True, fp\<lparr>wbuf := wbuf fp @ bs\<rparr>)
      | Some n \<Rightarrow>
          if length bs \<le> n then (True, fp\<lparr>wbuf := wbuf fp @ bs, wroom := Some (n - length bs)\<rparr>)
          else (False, fp))"

text \<open>
  Modelled from the spec: the macros \<open>READ_INT32\<close>, \<open>READ_STRING\<close>, \<open>READ\<close>,
  \<open>WRITE_INT32\<close>, \<open>WRITE_STRING\<close> and \<open>WRITE_TYPE\<close> of \<open>nslcd-prot.h\<close> and
  \<open>nslcd/common.h\<close>, which are not among the sources. An integer is 32 bits wide in a
  fixed byte order (most significant byte first here); a string is its length as such
  an integer followed by its bytes, without terminator; the reader fails when the
  declared length is negative or does not fit the destination with its terminator.
  Every macro leaves the calling function with \<open>- 1\<close> when the stream fails.
\<close>

definition int32_bytes :: "32 word \<Rightarrow> char list" where
  "int32_bytes w =
     [char_of (unat (drop_bit 24 w)), char_of (unat (drop_bit 16 w)),
      char_of (unat (drop_bit 8 w)), char_of (unat w)]"

definition int32_of_bytes :: "char list \<Rightarrow> 32 word" where
  "int32_of_bytes bs = word_of_nat (foldl (\<lambda>a c. a * 256 + of_char c) 0 bs)"

definition READ_INT32 :: "tfile \<Rightarrow> (int \<times> tfile) option" where
  "READ_INT32 fp =
     (case tio_read fp 4 of
        None \<Rightarrow> None
      | Some (bs, fp') \<Rightarrow> Some (sint (int32_of_bytes bs), fp'))"

definition READ :: "tfile \<Rightarrow> nat \<Rightarrow> (char list \<times> tfile) option" where
  "READ fp n = tio_read fp n"

definition READ_STRING :: "tfile \<Rightarrow> nat \<Rightarrow> (string \<times> tfile) option" where
  "READ_STRING fp buflen =
     (case READ_INT32 fp of
        None \<Rightarrow> None
      | Some (len, fp1) \<Rightarrow>
          if len < 0 \<or> buflen \<le> nat len then None
          else if 0 < len then
            (case READ fp1 (nat len) of
               None \<Rightarrow> None
             | Some (bs, fp2) \<Rightarrow> Some (c_str bs, fp2))
          else Some ([], fp1))"

definition WRITE_INT32 :: "tfile \<Rightarrow> int \<Rightarrow> bool \<times> tfile" where
  "WRITE_INT32 fp i = tio_write fp (int32_bytes (word_of_int i))"

definition WRITE_STRING :: "tfile \<Rightarrow> string \<Rightarrow> bool \<times> tfile" where
  "WRITE_STRING fp str =
     (case WRITE_INT32 fp (int (length str)) of
        (False, fp1) \<Rightarrow> (False, fp1)
      | (True, fp1) \<Rightarrow>
          let tmpint32 = sint (word_of_int (int (length str)) :: 32 word) in
          if 0 < tmpint32 then tio_write fp1 (take (nat tmpint32) str) else (True, fp1))"

definition WRITE_TYPE :: "tfile \<Rightarrow> char list \<Rightarrow> bool \<times> tfile" where
  "WRITE_TYPE fp bs = tio_write fp bs"

text \<open>
  A run of consecutive \<open>WRITE_\<close> macro calls is the list of what they write; the run
  stops at the first write that fails.
\<close>

datatype wire = W_INT32 int | W_STRING string | W_TYPE "char list"

fun WRITE_wire :: "tfile \<Rightarrow> wire \<Rightarrow> bool \<times> tfile" where
  "WRITE_wire fp (W_INT32 i) = WRITE_INT32 fp i"
| "WRITE_wire fp (W_STRING str) = WRITE_STRING fp str"
| "WRITE_wire fp (W_TYPE bs) = WRITE_TYPE fp bs"

fun WRITE_seq :: "tfile \<Rightarrow> wire list \<Rightarrow> bool \<times> tfile" where
  "WRITE_seq fp [] = (True, fp)"
| "WRITE_seq fp (x # xs) =
     (case WRITE_wire fp x of
        (False, fp') \<Rightarrow> (False, fp')
      | (True, fp') \<Rightarrow> WRITE_seq fp' xs)"

text \<open>The bytes of a frame on the wire, as a stream that accepts them receives them.\<close>

fun frame :: "wire \<Rightarrow> char list" where
  "frame (W_INT32 i) = int32_bytes (word_of_int i)"
| "frame (W_STRING str) =
     int32_bytes (word_of_int (int (length str))) @
     (let tmpint32 = sint (word_of_int (int (length str)) :: 32 word)
      in if 0 < tmpint32 then take (nat tmpint32) str else [])"
| "frame (W_TYPE bs) = bs"

definition frames :: "wire list \<Rightarrow> char list" where
  "frames xs = concat (map frame xs)"

subsection \<open>write_address and read_address\<close>

definition write_address :: "env \<Rightarrow> tfile \<Rightarrow> string \<Rightarrow> int \<times> tfile" where
  "write_address E fp addr =
     (case
        (case inet_pton4 E addr of
           Some ipv4addr \<Rightarrow>
             WRITE_seq fp [W_INT32 AF_INET, W_INT32 4, W_TYPE (in_addr_bytes ipv4addr)]
         | None \<Rightarrow>
             (case inet_pton6 E addr of
                Some ipv6addr \<Rightarrow>
                  WRITE_seq fp [W_INT32 AF_INET6, W_INT32 16, W_TYPE (in6_addr_bytes ipv6addr)]
              | None \<Rightarrow> WRITE_seq fp [W_INT32 (- 1), W_INT32 0]))
      of
        (False, fp') \<Rightarrow> (- 1, fp')
      | (True, fp') \<Rightarrow> (0, fp'))"

text \<open>
  \<open>read_address fp addr addrlen af\<close> returns the function's value, the stream, and the
  contents of \<open>addr\<close>, \<open>*addrlen\<close> and \<open>*af\<close> when it returns.
\<close>

definition read_address :: "tfile \<Rightarrow> char list \<Rightarrow> int \<Rightarrow> int \<Rightarrow> int \<times> tfile \<times> char list \<times> int \<times> int" where
  "read_address fp addr addrlen af =
     (case READ_INT32 fp of
        None \<Rightarrow> (- 1, fp, addr, addrlen, af)
      | Some (af', fp1) \<Rightarrow>
          if af' \<noteq> AF_INET \<and> af' \<noteq> AF_INET6 then (- 1, fp1, addr, addrlen, af')
          else
            (case READ_INT32 fp1 of
               None \<Rightarrow> (- 1, fp1, addr, addrlen, af')
             | Some (len, fp2) \<Rightarrow>
                 if len > addrlen \<or> len \<le> 0 then (- 1, fp2, addr, addrlen, af')
                 else
                   (case READ fp2 (nat len) of
                      None \<Rightarrow> (- 1, fp2, addr, len, af')
                    | Some (bs, fp3) \<Rightarrow> (0, fp3, bs @ drop (nat len) addr, len, af'))))"

subsection \<open>getfqdn\<close>

definition strncasecmp :: "string \<Rightarrow> string \<Rightarrow> nat \<Rightarrow> int" where
  "strncasecmp s1 s2 n = strcasecmp (take n s1) (take n s2)"

definition strdup :: "env \<Rightarrow> string \<Rightarrow> string option" where
  "strdup E s = (if malloc E (length s + 1) then Some s else None)"

text \<open>
  The static variable \<open>fqdn\<close> is passed in and returned: \<open>getfqdn E fqdn\<close> is the pair
  of the value returned and the value \<open>fqdn\<close> holds afterwards.
\<close>

definition getfqdn :: "env \<Rightarrow> string option \<Rightarrow> string option \<times> string option" where
  "getfqdn E fqdn =
     (case fqdn of
        Some f \<Rightarrow> (Some f, fqdn)
      | None \<Rightarrow>
          (case gethostname E (HOST_NAME_MAX E + 1) of
             None \<Rightarrow> (None, fqdn)
           | Some hostname \<Rightarrow>
               let hostnamelen = length hostname in
               (case gethostbyname E hostname of
                  None \<Rightarrow> (strdup E hostname, strdup E hostname)
                | Some (h_name, h_aliases) \<Rightarrow>
                    if strncasecmp hostname h_name hostnamelen = 0 \<and>
                       c_at h_name hostnamelen = CHR ''.'' \<and>
                       c_at h_name (hostnamelen + 1) \<noteq> CHR 0x00
                    then (strdup E h_name, strdup E h_name)
                    else
                      (case find (\<lambda>a. strncasecmp hostname a hostnamelen = 0 \<and>
                                       c_at a hostnamelen = CHR ''.'' \<and>
                                       c_at a (hostnamelen + 1) \<noteq> CHR 0x00) h_aliases of
                         Some a \<Rightarrow> (Some a, Some a)
                       | None \<Rightarrow>
                           if CHR ''.'' \<in> set h_name then (strdup E h_name, strdup E h_name)
                           else
                             (case find (\<lambda>a. CHR ''.'' \<in> set a) h_aliases of
                                Some a \<Rightarrow> (strdup E a, strdup E a)
                              | None \<Rightarrow> (strdup E hostname, strdup E hostname))))))"

section \<open>nslcd/pam.c\<close>

text \<open>
  Modelled from the spec: \<open>myldap_set_credentials\<close> of \<open>myldap.c\<close>, which is not
  among the sources. It fixes the credential tuple the session binds with.
\<close>

definition myldap_set_credentials :: "session \<Rightarrow> string \<Rightarrow> string \<Rightarrow> session" where
  "myldap_set_credentials session dn password =
     session\<lparr>session_binddn := Some dn, session_bindpw := Some password\<rparr>"

subsection \<open>try_bind\<close>

definition try_bind :: "env \<Rightarrow> string \<Rightarrow> string \<Rightarrow> int \<times> ldap_call list" where
  "try_bind E userdn password =
     (case myldap_create_session E of
        None \<Rightarrow> (LDAP_UNAVAILABLE, [Create_session])
      | Some session0 \<Rightarrow>
          let session = myldap_set_credentials session0 userdn password;
              (search, rc) = myldap_search E session (Some userdn) LDAP_SCOPE_BASE
                               ''(objectClass=*)'' [''dn''];
              opened = [Create_session, Set_credentials userdn password,
                        Search session (Some userdn) LDAP_SCOPE_BASE ''(objectClass=*)'']
          in
            (case search of
               None \<Rightarrow>
                 ((if rc = LDAP_SUCCESS then LDAP_LOCAL_ERROR else rc),
                  opened @ [Session_close session])
             | Some srch \<Rightarrow>
                 if rc \<noteq> LDAP_SUCCESS then (rc, opened @ [Session_close session])
                 else
                   let (entry, rc) = myldap_get_entry E srch in
                     if entry = None \<or> rc \<noteq> LDAP_SUCCESS
                     then ((if rc = LDAP_SUCCESS then LDAP_NO_RESULTS_RETURNED else rc),
                           opened @ [Get_entry srch, Session_close session])
                     else (rc, opened @ [Get_entry srch, Session_close session])))"

subsection \<open>validate_user\<close>

text \<open>
  \<open>validate_user\<close> returns its result code with the contents of the buffers \<open>userdn\<close>
  and \<open>username\<close> when it returns. Where \<open>myldap_get_values\<close> returns \<open>NULL\<close>, the
  assignment \<open>value=values[0]\<close> dereferences it.
\<close>

definition validate_user ::
  "env \<Rightarrow> session \<Rightarrow> string \<Rightarrow> nat \<Rightarrow> string \<Rightarrow> nat \<Rightarrow> (int \<times> string \<times> string) outcome \<times> ldap_call list" where
  "validate_user E session userdn userdnsz username usernamesz =
     (if isvalidname E (Some username) = 0
      then (Returns (LDAP_NO_SUCH_OBJECT, userdn, username), [])
      else if c_at userdn 0 = CHR 0x00 then
        (case uid2entry E session username of
           (None, rc) \<Rightarrow>
             (Returns ((if rc = LDAP_SUCCESS then LDAP_NO_SUCH_OBJECT else rc), userdn, username),
              [Uid2entry session username])
         | (Some entry, rc) \<Rightarrow>
             let userdn = myldap_cpy_dn E entry userdn userdnsz in
               if strcasecmp userdn ''unknown'' = 0
               then (Returns (LDAP_NO_SUCH_OBJECT, userdn, username), [Uid2entry session username])
               else
                 (case
                    (case myldap_get_rdn_value E entry (attmap_passwd_uid E) of
                       Some v \<Rightarrow> Returns (Some v)
                     | None \<Rightarrow>
                         (case myldap_get_values E entry (attmap_passwd_uid E) of
                            None \<Rightarrow> Crashes
                          | Some [] \<Rightarrow> Returns None
                          | Some (v # _) \<Rightarrow> Returns (Some v)))
                  of
                    Crashes \<Rightarrow> (Crashes, [Uid2entry session username])
                  | Returns None \<Rightarrow>
                      (Returns (LDAP_INVALID_SYNTAX, userdn, username), [Uid2entry session username])
                  | Returns (Some v) \<Rightarrow>
                      if isvalidname E (Some v) = 0 \<or> length v \<ge> usernamesz
                      then (Returns (LDAP_INVALID_SYNTAX, userdn, username),
                            [Uid2entry session username])
                      else (Returns (LDAP_SUCCESS, userdn, (if username \<noteq> v then v else username)),
                            [Uid2entry session username])))
      else (Returns (LDAP_SUCCESS, userdn, username), []))"

subsection \<open>nslcd_pam_authc\<close>

text \<open>
  A handler returns its value with the stream and the directory calls it made. The
  handler is split where its control flow joins: \<open>authc_try_authentication\<close> is the
  code from \<open>/* try authentication */\<close> to the end of the function,
  \<open>authc_validate_as_usual\<close> the branch \<open>else if ((rc=validate_user(...))!=LDAP_SUCCESS)\<close>
  with what follows it, and \<open>authc_request\<close> the code after the request has been read.
\<close>

type_synonym handled = "(int \<times> tfile \<times> ldap_call list) outcome"

definition authc_try_authentication ::
  "env \<Rightarrow> tfile \<Rightarrow> ldap_call list \<Rightarrow> string \<Rightarrow> string \<Rightarrow> string \<Rightarrow> handled" where
  "authc_try_authentication E fp calls username userdn password =
     (let (rc, bind_calls) = try_bind E userdn password;
          rc = (if rc = LDAP_SUCCESS then NSLCD_PAM_SUCCESS E
                else if rc = LDAP_INVALID_CREDENTIALS then NSLCD_PAM_AUTH_ERR E
                else NSLCD_PAM_AUTH_ERR E)
      in
        (case WRITE_seq fp
                [W_INT32 (NSLCD_RESULT_BEGIN E), W_STRING username, W_STRING userdn,
                 W_INT32 rc, W_INT32 (NSLCD_PAM_SUCCESS E), W_STRING [],
                 W_INT32 (NSLCD_RESULT_END E)] of
           (False, fp') \<Rightarrow> Returns (- 1, fp', calls @ bind_calls)
         | (True, fp') \<Rightarrow> Returns (0, fp', calls @ bind_calls)))"

definition authc_validate_as_usual ::
  "env \<Rightarrow> tfile \<Rightarrow> session \<Rightarrow> string \<Rightarrow> string \<Rightarrow> string \<Rightarrow> handled" where
  "authc_validate_as_usual E fp session username userdn password =
     (case validate_user E session userdn 256 username 256 of
        (Crashes, calls) \<Rightarrow> Crashes
      | (Returns (rc, userdn, username), calls) \<Rightarrow>
          if rc \<noteq> LDAP_SUCCESS then
            (case
               (if rc \<noteq> LDAP_NO_SUCH_OBJECT
                then WRITE_seq fp
                       [W_INT32 (NSLCD_RESULT_BEGIN E), W_STRING username, W_STRING [],
                        W_INT32 (NSLCD_PAM_AUTHINFO_UNAVAIL E), W_INT32 (NSLCD_PAM_SUCCESS E),
                        W_STRING ''LDAP server unavaiable'']
                else (True, fp))
             of
               (False, fp') \<Rightarrow> Returns (- 1, fp', calls)
             | (True, fp') \<Rightarrow>
                 (case WRITE_INT32 fp' (NSLCD_RESULT_END E) of
                    (False, fp'') \<Rightarrow> Returns (- 1, fp'', calls)
                  | (True, fp'') \<Rightarrow> Returns (- 1, fp'', calls)))
          else authc_try_authentication E fp calls username userdn password)"

definition authc_request ::
  "env \<Rightarrow> tfile \<Rightarrow> session \<Rightarrow> nat \<Rightarrow> string \<Rightarrow> string \<Rightarrow> string \<Rightarrow> string \<Rightarrow> handled" where
  "authc_request E fp session calleruid username userdn servicename password =
     (case WRITE_seq fp [W_INT32 (NSLCD_VERSION E), W_INT32 (NSLCD_ACTION_PAM_AUTHC E)] of
        (False, fp') \<Rightarrow> Returns (- 1, fp', [])
      | (True, fp') \<Rightarrow>
          if c_at username 0 = CHR 0x00 \<and> ldc_rootpwmoddn (nslcd_cfg E) \<noteq> None then
            (if length (the (ldc_rootpwmoddn (nslcd_cfg E))) \<ge> 256 then Returns (- 1, fp', [])
             else
               let userdn = the (ldc_rootpwmoddn (nslcd_cfg E)) in
                 if c_at password 0 = CHR 0x00 \<and> calleruid = 0 \<and>
                    ldc_rootpwmodpw (nslcd_cfg E) \<noteq> None
                 then
                   (if length (the (ldc_rootpwmodpw (nslcd_cfg E))) \<ge> 64
                    then Returns (- 1, fp', [])
                    else
                      let password = the (ldc_rootpwmodpw (nslcd_cfg E)) in
                        authc_try_authentication E fp' [] username userdn password)
                 else authc_try_authentication E fp' [] username userdn password)
          else authc_validate_as_usual E fp' session username userdn password)"

definition nslcd_pam_authc :: "env \<Rightarrow> tfile \<Rightarrow> session \<Rightarrow> nat \<Rightarrow> handled" where
  "nslcd_pam_authc E fp session calleruid =
     (case READ_STRING fp 256 of
        None \<Rightarrow> Returns (- 1, fp, [])
      | Some (username, fp1) \<Rightarrow>
     (case READ_STRING fp1 256 of
        None \<Rightarrow> Returns (- 1, fp1, [])
      | Some (userdn, fp2) \<Rightarrow>
     (case READ_STRING fp2 64 of
        None \<Rightarrow> Returns (- 1, fp2, [])
      | Some (servicename, fp3) \<Rightarrow>
     (case READ_STRING fp3 64 of
        None \<Rightarrow> Returns (- 1, fp3, [])
      | Some (password, fp4) \<Rightarrow>
          authc_request E fp4 session calleruid username userdn servicename password))))"

subsection \<open>nslcd_pam_authz\<close>

text \<open>
  The \<open>DICT\<close> of template variables is a map from names to escaped values;
  \<open>dict_put\<close> replaces the value of a name that is already there.
\<close>

definition autzsearch_var_add ::
  "env \<Rightarrow> (string \<rightharpoonup> string) \<Rightarrow> string \<Rightarrow> string \<Rightarrow> (string \<rightharpoonup> string)" where
  "autzsearch_var_add E dict name val =
     (let sz = ((length val + 8) * 120) div 100 in
        if \<not> malloc E sz then dict
        else
          (case myldap_escape E val sz of
             None \<Rightarrow> dict
           | Some escaped_value \<Rightarrow> dict(name \<mapsto> escaped_value)))"

definition autzsearch_var_get :: "(string \<rightharpoonup> string) \<Rightarrow> string \<Rightarrow> string option" where
  "autzsearch_var_get dict name = dict name"

definition try_autzsearch ::
  "env \<Rightarrow> session \<Rightarrow> (string \<rightharpoonup> string) \<Rightarrow> string \<Rightarrow> int \<times> ldap_call list" where
  "try_autzsearch E session dict searchfilter =
     (case expr_parse E searchfilter 1024 (autzsearch_var_get dict) of
        None \<Rightarrow> (LDAP_LOCAL_ERROR, [])
      | Some filter_buffer \<Rightarrow>
          let (search, rc) = myldap_search E session (ldc_bases (nslcd_cfg E) 0)
                               LDAP_SCOPE_SUBTREE filter_buffer [''dn''];
              searched = [Search session (ldc_bases (nslcd_cfg E) 0) LDAP_SCOPE_SUBTREE
                            filter_buffer]
          in
            (case search of
               None \<Rightarrow> (rc, searched)
             | Some srch \<Rightarrow>
                 let (entry, rc) = myldap_get_entry E srch in
                   (case entry of
                      None \<Rightarrow> (rc, searched @ [Get_entry srch])
                    | Some e \<Rightarrow> (LDAP_SUCCESS, searched @ [Get_entry srch]))))"

text \<open>
  \<open>authz_vars\<close> is the run of \<open>autzsearch_var_add\<close> calls that fills the \<open>DICT\<close>; it
  returns the dictionary with the value the static variable of \<open>getfqdn\<close> holds
  afterwards. \<open>authz_write_response\<close> is the code from \<open>/* write response */\<close> to the
  end of \<open>nslcd_pam_authz\<close>, and \<open>authz_request\<close> the handler after the request has
  been read. The handler returns its value with the stream, the directory calls and the
  static variable of \<open>getfqdn\<close>.
\<close>

definition authz_vars ::
  "env \<Rightarrow> string option \<Rightarrow> string \<Rightarrow> string \<Rightarrow> string \<Rightarrow> string \<Rightarrow> string \<Rightarrow> string
     \<Rightarrow> (string \<rightharpoonup> string) \<times> string option" where
  "authz_vars E fqdn username userdn servicename ruser rhost tty =
     (let dict = Map.empty;
          dict = autzsearch_var_add E dict ''username'' username;
          dict = autzsearch_var_add E dict ''service'' servicename;
          dict = autzsearch_var_add E dict ''ruser'' ruser;
          dict = autzsearch_var_add E dict ''rhost'' rhost;
          dict = autzsearch_var_add E dict ''tty'' tty;
          dict = (case gethostname E (HOST_NAME_MAX E + 1) of
                    Some hostname \<Rightarrow> autzsearch_var_add E dict ''hostname'' hostname
                  | None \<Rightarrow> dict);
          (fq, fqdn') = getfqdn E fqdn;
          dict = (case fq of
                    Some f \<Rightarrow> autzsearch_var_add E dict ''fqdn'' f
                  | None \<Rightarrow> dict);
          dict = autzsearch_var_add E dict ''dn'' userdn;
          dict = autzsearch_var_add E dict ''uid'' username
      in (dict, fqdn'))"

type_synonym handled_authz = "(int \<times> tfile \<times> ldap_call list \<times> string option) outcome"

definition authz_write_response ::
  "env \<Rightarrow> tfile \<Rightarrow> ldap_call list \<Rightarrow> string option \<Rightarrow> string \<Rightarrow> string \<Rightarrow> handled_authz" where
  "authz_write_response E fp calls fqdn username userdn =
     (case WRITE_seq fp
             [W_INT32 (NSLCD_RESULT_BEGIN E), W_STRING username, W_STRING userdn,
              W_INT32 (NSLCD_PAM_SUCCESS E), W_STRING [], W_INT32 (NSLCD_RESULT_END E)] of
        (False, fp') \<Rightarrow> Returns (- 1, fp', calls, fqdn)
      | (True, fp') \<Rightarrow> Returns (0, fp', calls, fqdn))"

definition authz_request ::
  "env \<Rightarrow> tfile \<Rightarrow> session \<Rightarrow> string option \<Rightarrow> string \<Rightarrow> string \<Rightarrow> string \<Rightarrow> string \<Rightarrow> string \<Rightarrow> string
     \<Rightarrow> handled_authz" where
  "authz_request E fp session fqdn username userdn servicename ruser rhost tty =
     (case WRITE_seq fp [W_INT32 (NSLCD_VERSION E), W_INT32 (NSLCD_ACTION_PAM_AUTHZ E)] of
        (False, fp') \<Rightarrow> Returns (- 1, fp', [], fqdn)
      | (True, fp') \<Rightarrow>
          (case validate_user E session userdn 256 username 256 of
             (Crashes, calls) \<Rightarrow> Crashes
           | (Returns (rc, userdn, username), calls) \<Rightarrow>
               if rc \<noteq> LDAP_SUCCESS then
                 (case WRITE_INT32 fp' (NSLCD_RESULT_END E) of
                    (ok, fp'') \<Rightarrow> Returns (- 1, fp'', calls, fqdn))
               else
                 (case ldc_pam_authz_search (nslcd_cfg E) of
                    None \<Rightarrow> authz_write_response E fp' calls fqdn username userdn
                  | Some searchfilter \<Rightarrow>
                      let (dict, fqdn') = authz_vars E fqdn username userdn servicename
                                            ruser rhost tty;
                          (rc, search_calls) = try_autzsearch E session dict searchfilter
                      in
                        if rc \<noteq> LDAP_SUCCESS then
                          (case WRITE_seq fp'
                                  [W_INT32 (NSLCD_RESULT_BEGIN E), W_STRING username,
                                   W_STRING userdn, W_INT32 (NSLCD_PAM_PERM_DENIED E),
                                   W_STRING ''LDAP authorisation check failed'',
                                   W_INT32 (NSLCD_RESULT_END E)] of
                             (False, fp'') \<Rightarrow> Returns (- 1, fp'', calls @ search_calls, fqdn')
                           | (True, fp'') \<Rightarrow>
                               authz_write_response E fp'' (calls @ search_calls) fqdn'
                                 username userdn)
                        else authz_write_response E fp' (calls @ search_calls) fqdn'
                               username userdn)))"

definition nslcd_pam_authz :: "env \<Rightarrow> tfile \<Rightarrow> session \<Rightarrow> string option \<Rightarrow> handled_authz" where
  "nslcd_pam_authz E fp session fqdn =
     (case READ_STRING fp 256 of
        None \<Rightarrow> Returns (- 1, fp, [], fqdn)
      | Some (username, fp1) \<Rightarrow>
     (case READ_STRING fp1 256 of
        None \<Rightarrow> Returns (- 1, fp1, [], fqdn)
      | Some (userdn, fp2) \<Rightarrow>
     (case READ_STRING fp2 64 of
        None \<Rightarrow> Returns (- 1, fp2, [], fqdn)
      | Some (servicename, fp3) \<Rightarrow>
     (case READ_STRING fp3 256 of
        None \<Rightarrow> Returns (- 1, fp3, [], fqdn)
      | Some (ruser, fp4) \<Rightarrow>
     (case READ_STRING fp4 (HOST_NAME_MAX E + 1) of
        None \<Rightarrow> Returns (- 1, fp4, [], fqdn)
      | Some (rhost, fp5) \<Rightarrow>
     (case READ_STRING fp5 64 of
        None \<Rightarrow> Returns (- 1, fp5, [], fqdn)
      | Some (tty, fp6) \<Rightarrow>
          authz_request E fp6 session fqdn username userdn servicename ruser rhost tty))))))"

subsection \<open>try_pwmod and nslcd_pam_pwmod\<close>

definition try_pwmod :: "env \<Rightarrow> string \<Rightarrow> string \<Rightarrow> string \<Rightarrow> string \<Rightarrow> int \<times> ldap_call list" where
  "try_pwmod E binddn userdn oldpassword newpassword =
     (case myldap_create_session E of
        None \<Rightarrow> (LDAP_UNAVAILABLE, [Create_session])
      | Some session0 \<Rightarrow>
          let session = myldap_set_credentials session0 binddn oldpassword;
              (uid, rc) = lookup_dn2uid E session userdn 256;
              opened = [Create_session, Set_credentials binddn oldpassword,
                        Lookup_dn2uid session userdn]
          in
            if uid \<noteq> None \<and> rc = LDAP_SUCCESS then
              let oldpassword' =
                    (if ldc_rootpwmoddn (nslcd_cfg E) \<noteq> None \<and>
                        binddn = the (ldc_rootpwmoddn (nslcd_cfg E))
                     then None else Some oldpassword);
                  rc = myldap_passwd E session userdn oldpassword' newpassword
              in
                if rc = LDAP_SUCCESS
                then (rc, opened @ [Passwd session userdn oldpassword' newpassword,
                                    Update_lastchange session userdn, Session_close session])
                else (rc, opened @ [Passwd session userdn oldpassword' newpassword,
                                    Session_close session])
            else (rc, opened @ [Session_close session]))"

text \<open>
  \<open>binddn\<close> points to the buffer \<open>userdn\<close> unless the request passed the
  administrator's DN, so that it names what \<open>validate_user\<close> leaves in that buffer.
  \<open>pwmod_request\<close> is the handler after the request has been read.
\<close>

definition pwmod_request ::
  "env \<Rightarrow> tfile \<Rightarrow> session \<Rightarrow> nat \<Rightarrow> string \<Rightarrow> string \<Rightarrow> string \<Rightarrow> string \<Rightarrow> string \<Rightarrow> handled" where
  "pwmod_request E fp session calleruid username userdn servicename oldpassword newpassword =
     (case WRITE_seq fp [W_INT32 (NSLCD_VERSION E), W_INT32 (NSLCD_ACTION_PAM_PWMOD E)] of
        (False, fp') \<Rightarrow> Returns (- 1, fp', [])
      | (True, fp') \<Rightarrow>
          let admin = (ldc_rootpwmoddn (nslcd_cfg E) \<noteq> None \<and>
                       userdn = the (ldc_rootpwmoddn (nslcd_cfg E)));
              usepw = (admin \<and> c_at oldpassword 0 = CHR 0x00 \<and> calleruid = 0 \<and>
                       ldc_rootpwmodpw (nslcd_cfg E) \<noteq> None)
          in
            if usepw \<and> length (the (ldc_rootpwmodpw (nslcd_cfg E))) \<ge> 64
            then Returns (- 1, fp', [])
            else
              let oldpassword = (if usepw then the (ldc_rootpwmodpw (nslcd_cfg E))
                                 else oldpassword);
                  userdn = (if admin then [] else userdn)
              in
                (case validate_user E session userdn 256 username 256 of
                   (Crashes, calls) \<Rightarrow> Crashes
                 | (Returns (rc, userdn, username), calls) \<Rightarrow>
                     if rc \<noteq> LDAP_SUCCESS then
                       (case WRITE_INT32 fp' (NSLCD_RESULT_END E) of
                          (ok, fp'') \<Rightarrow> Returns (- 1, fp'', calls))
                     else
                       let binddn = (if admin then the (ldc_rootpwmoddn (nslcd_cfg E))
                                     else userdn);
                           (rc, pw_calls) = try_pwmod E binddn userdn oldpassword newpassword
                       in
                         (case WRITE_seq fp'
                                 ([W_INT32 (NSLCD_RESULT_BEGIN E), W_STRING username,
                                   W_STRING userdn] @
                                  (if rc = LDAP_SUCCESS
                                   then [W_INT32 (NSLCD_PAM_SUCCESS E), W_STRING []]
                                   else [W_INT32 (NSLCD_PAM_PERM_DENIED E),
                                         W_STRING (ldap_err2string E rc)]) @
                                  [W_INT32 (NSLCD_RESULT_END E)]) of
                            (False, fp'') \<Rightarrow> Returns (- 1, fp'', calls @ pw_calls)
                          | (True, fp'') \<Rightarrow> Returns (0, fp'', calls @ pw_calls))))"

definition nslcd_pam_pwmod :: "env \<Rightarrow> tfile \<Rightarrow> session \<Rightarrow> nat \<Rightarrow> handled" where
  "nslcd_pam_pwmod E fp session calleruid =
     (case READ_STRING fp 256 of
        None \<Rightarrow> Returns (- 1, fp, [])
      | Some (username, fp1) \<Rightarrow>
     (case READ_STRING fp1 256 of
        None \<Rightarrow> Returns (- 1, fp1, [])
      | Some (userdn, fp2) \<Rightarrow>
     (case READ_STRING fp2 64 of
        None \<Rightarrow> Returns (- 1, fp2, [])
      | Some (servicename, fp3) \<Rightarrow>
     (case READ_STRING fp3 64 of
        None \<Rightarrow> Returns (- 1, fp3, [])
      | Some (oldpassword, fp4) \<Rightarrow>
     (case READ_STRING fp4 64 of
        None \<Rightarrow> Returns (- 1, fp4, [])
      | Some (newpassword, fp5) \<Rightarrow>
          pwmod_request E fp5 session calleruid username userdn servicename
            oldpassword newpassword)))))"

section \<open>A sample deployment\<close>

text \<open>
  A small directory, used to run the functions on concrete requests: the users
  \<open>alice\<close> (password \<open>wonderland\<close>) and \<open>bob\<close> (stored as \<open>Bob\<close>, whose own entry
  is not readable after a bind), an entry \<open>ghost\<close> without DN, an entry \<open>nouid\<close>
  without uid value, and an administrator. Only \<open>alice\<close> matches the authorisation
  filter.
\<close>

definition example_cfg :: ldap_config where
  "example_cfg =
     \<lparr>ldc_rootpwmoddn = Some ''cn=admin,dc=example,dc=com'',
      ldc_rootpwmodpw = Some ''adminsecret'',
      ldc_pam_authz_search = Some ''(&(objectClass=posixAccount)(uid=$username))'',
      ldc_bases = (\<lambda>i. if i = 0 then Some ''dc=example,dc=com'' else None)\<rparr>"

definition example_dn :: "nat \<Rightarrow> string" where
  "example_dn entry =
     (if entry = 1 then ''uid=alice,dc=example,dc=com''
      else if entry = 2 then ''uid=Bob,dc=example,dc=com''
      else if entry = 4 then ''cn=nouid,dc=example,dc=com''
      else ''unknown'')"

definition example_env :: env where
  "example_env =
     \<lparr>LOGIN_NAME_MAX = Some 256,
      HOST_NAME_MAX = 64,
      NSLCD_VERSION = 1,
      NSLCD_ACTION_PAM_AUTHC = 20001,
      NSLCD_ACTION_PAM_AUTHZ = 20002,
      NSLCD_ACTION_PAM_PWMOD = 20005,
      NSLCD_RESULT_BEGIN = 0,
      NSLCD_RESULT_END = 3,
      NSLCD_PAM_SUCCESS = 0,
      NSLCD_PAM_PERM_DENIED = 6,
      NSLCD_PAM_AUTH_ERR = 7,
      NSLCD_PAM_AUTHINFO_UNAVAIL = 9,
      nslcd_cfg = example_cfg,
      attmap_passwd_uid = ''uid'',
      myldap_create_session = Some \<lparr>session_binddn = None, session_bindpw = None\<rparr>,
      myldap_search = (\<lambda>session base scope searchfilter attrs.
        if scope = LDAP_SCOPE_BASE then
          (if (session_binddn session = Some (example_dn 1) \<and>
               session_bindpw session = Some ''wonderland'') \<or>
              (session_binddn session = Some ''cn=admin,dc=example,dc=com'' \<and>
               session_bindpw session = Some ''adminsecret'')
           then (Some 10, LDAP_SUCCESS)
           else if session_binddn session = Some (example_dn 2) \<and>
                   session_bindpw session = Some ''builder''
           then (Some 11, LDAP_SUCCESS)
           else (None, LDAP_INVALID_CREDENTIALS))
        else if searchfilter = ''(&(objectClass=posixAccount)(uid=alice))'' then (Some 20, LDAP_SUCCESS)
        else (Some 21, LDAP_SUCCESS)),
      myldap_get_entry = (\<lambda>search.
        if search = 10 \<or> search = 20 then (Some 1, LDAP_SUCCESS) else (None, LDAP_SUCCESS)),
      myldap_cpy_dn = (\<lambda>entry buf buflen.
        if length (example_dn entry) < buflen then example_dn entry else buf),
      myldap_get_rdn_value = (\<lambda>entry attr.
        if attr = ''uid'' \<and> entry = 1 then Some ''alice''
        else if attr = ''uid'' \<and> entry = 2 then Some ''Bob''
        else None),
      myldap_get_values = (\<lambda>entry attr. if entry = 4 then Some [] else None),
      myldap_passwd = (\<lambda>session dn oldpw newpw.
        if oldpw = None \<or> oldpw = session_bindpw session then LDAP_SUCCESS
        else LDAP_INVALID_CREDENTIALS),
      myldap_escape = (\<lambda>val sz. if length val < sz then Some val else None),
      uid2entry = (\<lambda>session username.
        if username = ''alice'' then (Some 1, LDAP_SUCCESS)
        else if username = ''bob'' then (Some 2, LDAP_SUCCESS)
        else if username = ''ghost'' then (Some 3, LDAP_SUCCESS)
        else if username = ''nouid'' then (Some 4, LDAP_SUCCESS)
        else (None, LDAP_SUCCESS)),
      lookup_dn2uid = (\<lambda>session dn buflen.
        if dn = example_dn 1 then (Some ''alice'', LDAP_SUCCESS)
        else if dn = example_dn 2 then (Some ''Bob'', LDAP_SUCCESS)
        else (None, LDAP_NO_SUCH_OBJECT)),
      update_lastchange = (\<lambda>session dn. LDAP_SUCCESS),
      expr_parse = (\<lambda>template buflen var_get.
        if template = ''(&(objectClass=posixAccount)(uid=$username))'' then
          (case var_get ''username'' of
             Some u \<Rightarrow> Some (''(&(objectClass=posixAccount)(uid='' @ u @ ''))'')
           | None \<Rightarrow> Some ''(&(objectClass=posixAccount)(uid=))'')
        else None),
      ldap_err2string = (\<lambda>rc. ''error''),
      malloc = (\<lambda>sz. True),
      gethostname = (\<lambda>buflen. Some ''host1''),
      gethostbyname = (\<lambda>hostname. Some (''host1.example.com'', [])),
      inet_pton4 = (\<lambda>addr.
        if addr = ''192.0.2.1'' then Some (IN_ADDR (CHR 0xC0) (CHR 0x00) (CHR 0x02) (CHR 0x01))
        else None),
      inet_pton6 = (\<lambda>addr. None)\<rparr>"

text \<open>
  The same deployment while the directory fails to deliver search results: every
  \<open>myldap_get_entry\<close> returns no entry and \<open>LDAP_UNAVAILABLE\<close>.
\<close>

definition outage_env :: env where
  "outage_env = example_env\<lparr>myldap_get_entry := (\<lambda>search. (None, LDAP_UNAVAILABLE))\<rparr>"

definition example_session :: session where
  "example_session = \<lparr>session_binddn = None, session_bindpw = None\<rparr>"

text \<open>
  \<open>request_fields fp fs rest\<close>: the stream holds the string fields \<open>fs\<close> of a
  request, each a C string that fits the buffer it is read into (given with it),
  followed by \<open>rest\<close>.
\<close>

definition request_fields :: "tfile \<Rightarrow> (string \<times> nat) list \<Rightarrow> char list \<Rightarrow> bool" where
  "request_fields fp fs rest \<longleftrightarrow>
     rbuf fp = frames (map (\<lambda>(s, buflen). W_STRING s) fs) @ rest \<and>
     list_all (\<lambda>(s, buflen). length s < buflen \<and> CHR 0x00 \<notin> set s) fs"

text \<open>A stream holding a request of the given string fields, with nothing written yet.\<close>

definition request_stream :: "string list \<Rightarrow> tfile" where
  "request_stream strs = \<lparr>rbuf = frames (map W_STRING strs), wbuf = [], wroom = None\<rparr>"

section \<open>The wire format\<close>

declare isvalidname_loop.simps [simp del]
declare WRITE_seq.simps [simp del] WRITE_wire.simps [simp del] frame.simps [simp del]

lemma length_int32_bytes: "length (int32_bytes w) = 4"
  by (simp add: int32_bytes_def)

lemma nat_split_bytes:
  fixes n :: nat
  assumes "n < 4294967296"
  shows "((n div 16777216 mod 256 * 256 + n div 65536 mod 256) * 256 + n div 256 mod 256) * 256
           + n mod 256 = n"
proof -
  have a: "n div 65536 = n div 256 div 256" and b: "n div 16777216 = n div 256 div 256 div 256"
    by (simp_all add: div_mult2_eq [symmetric])
  have "n div 16777216 < 256" using assms by simp
  then have c: "n div 16777216 mod 256 = n div 256 div 256 div 256" using b by simp
  show ?thesis
    unfolding c a by (simp only: div_mult_mod_eq)
qed

lemma unat_drop_bit_div: "unat (drop_bit k w) = unat w div 2 ^ k"
  by (metis drop_bit_eq_div unat_drop_bit_eq)

lemma int32_bytes_value:
  "foldl (\<lambda>a c. a * 256 + of_char c) 0 (int32_bytes w) = unat w"
proof -
  have "unat w < 4294967296" using unsigned_less [of w] by simp
  have "foldl (\<lambda>a c. a * 256 + of_char c) 0 (int32_bytes w) =
      ((unat w div 16777216 mod 256 * 256 + unat w div 65536 mod 256) * 256
         + unat w div 256 mod 256) * 256 + unat w mod 256"
    by (simp add: int32_bytes_def unat_drop_bit_div)
  also have "\<dots> = unat w"
    by (rule nat_split_bytes) fact
  finally show ?thesis .
qed

lemma int32_of_bytes_int32_bytes: "int32_of_bytes (int32_bytes w) = w"
  unfolding int32_of_bytes_def int32_bytes_value by simp

lemma READ_INT32_frame:
  "rbuf fp = int32_bytes w @ rest \<Longrightarrow> READ_INT32 fp = Some (sint w, fp\<lparr>rbuf := rest\<rparr>)"
  by (simp add: READ_INT32_def tio_read_def length_int32_bytes int32_of_bytes_int32_bytes)

lemma sint_of_length:
  "n < 2147483648 \<Longrightarrow> sint (word_of_nat n :: 32 word) = int n"
  by (simp add: signed_of_nat signed_take_bit_int_eq_self)

lemma sint_of_int32:
  "- 2147483648 \<le> i \<Longrightarrow> i < 2147483648 \<Longrightarrow> sint (word_of_int i :: 32 word) = i"
  by (simp add: signed_of_int signed_take_bit_int_eq_self)

lemma c_str_id: "CHR 0x00 \<notin> set s \<Longrightarrow> c_str s = s"
  by (auto simp: c_str_def)

lemma frame_string:
  "length s < 2147483648 \<Longrightarrow> frame (W_STRING s) = int32_bytes (word_of_nat (length s)) @ s"
  by (simp add: sint_of_length frame.simps)

lemma frames_Cons: "frames (x # xs) = frame x @ frames xs"
  by (simp add: frames_def)

lemma frames_Nil: "frames [] = []"
  by (simp add: frames_def)

lemma READ_INT32_int:
  assumes "rbuf fp = frame (W_INT32 i) @ rest" "- 2147483648 \<le> i" "i < 2147483648"
  shows "READ_INT32 fp = Some (i, fp\<lparr>rbuf := rest\<rparr>)"
  using READ_INT32_frame [of fp "word_of_int i" rest] assms
  by (simp add: sint_of_int32 frame.simps)

lemma READ_STRING_frame:
  assumes "rbuf fp = frame (W_STRING s) @ rest"
    and "length s < buflen" and "buflen \<le> 2147483648" and "CHR 0x00 \<notin> set s"
  shows "READ_STRING fp buflen = Some (s, fp\<lparr>rbuf := rest\<rparr>)"
proof -
  have len: "length s < 2147483648" using assms(2,3) by simp
  have rb: "rbuf fp = int32_bytes (word_of_nat (length s)) @ (s @ rest)"
    using assms(1) unfolding frame_string [OF len] by simp
  show ?thesis
    unfolding READ_STRING_def READ_INT32_frame [OF rb]
    using assms(2,4) by (simp add: sint_of_length [OF len] READ_def tio_read_def c_str_id)
qed

lemma WRITE_wire_frame:
  "wroom fp = None \<Longrightarrow> WRITE_wire fp x = (True, fp\<lparr>wbuf := wbuf fp @ frame x\<rparr>)"
  by (cases x)
     (simp_all add: WRITE_INT32_def WRITE_STRING_def WRITE_TYPE_def tio_write_def Let_def
        WRITE_wire.simps frame.simps)

lemma WRITE_seq_frames:
  "wroom fp = None \<Longrightarrow> WRITE_seq fp xs = (True, fp\<lparr>wbuf := wbuf fp @ frames xs\<rparr>)"
proof (induction xs arbitrary: fp)
  case Nil
  then show ?case by (simp add: frames_def WRITE_seq.simps)
next
  case (Cons x xs)
  have "wroom (fp\<lparr>wbuf := wbuf fp @ frame x\<rparr>) = None" using Cons.prems by simp
  from Cons.IH [OF this] show ?case
    by (simp add: WRITE_wire_frame [OF Cons.prems] frames_def WRITE_seq.simps)
qed

lemma WRITE_INT32_frame:
  "wroom fp = None \<Longrightarrow> WRITE_INT32 fp i = (True, fp\<lparr>wbuf := wbuf fp @ frame (W_INT32 i)\<rparr>)"
  using WRITE_wire_frame [of fp "W_INT32 i"] by (simp add: WRITE_wire.simps)

section \<open>Addresses on the wire\<close>

lemma write_address_ipv4:
  assumes "wroom fp = None" "inet_pton4 E addr = Some a"
  shows "write_address E fp addr =
    (0, fp\<lparr>wbuf := wbuf fp @ frames [W_INT32 AF_INET, W_INT32 4, W_TYPE (in_addr_bytes a)]\<rparr>)"
  by (simp add: write_address_def assms(2) WRITE_seq_frames [OF assms(1)])

lemma write_address_unparseable:
  assumes "wroom fp = None" "inet_pton4 E addr = None" "inet_pton6 E addr = None"
  shows "write_address E fp addr =
    (0, fp\<lparr>wbuf := wbuf fp @ frames [W_INT32 (- 1), W_INT32 0]\<rparr>)"
  by (simp add: write_address_def assms(2,3) WRITE_seq_frames [OF assms(1)])

lemma read_address_ipv4:
  assumes "rbuf fq = frames [W_INT32 AF_INET, W_INT32 4, W_TYPE (in_addr_bytes a)] @ rest"
    and "4 \<le> addrlen"
  shows "read_address fq buf addrlen af =
    (0, fq\<lparr>rbuf := rest\<rparr>, in_addr_bytes a @ drop 4 buf, 4, AF_INET)"
proof -
  have r1: "rbuf fq = frame (W_INT32 AF_INET) @ (frame (W_INT32 4) @ in_addr_bytes a @ rest)"
    using assms(1) by (simp add: frames_Cons frames_Nil frame.simps(3))
  have r2: "rbuf (fq\<lparr>rbuf := frame (W_INT32 4) @ in_addr_bytes a @ rest\<rparr>) =
      frame (W_INT32 4) @ (in_addr_bytes a @ rest)"
    by simp
  have AF: "- 2147483648 \<le> AF_INET" "AF_INET < 2147483648"
    by (simp_all add: AF_INET_def)
  have len: "length (in_addr_bytes a) = 4" by (cases a) simp
  show ?thesis
    unfolding read_address_def READ_INT32_int [OF r1 AF]
    using assms(2)
    by (simp add: READ_INT32_int [OF r2] READ_def tio_read_def len)
qed

lemma read_address_rejects:
  assumes "rbuf fq = frames [W_INT32 f, W_INT32 l] @ rest"
    and f: "- 2147483648 \<le> f" "f < 2147483648" and l: "- 2147483648 \<le> l" "l < 2147483648"
    and bad: "(f \<noteq> AF_INET \<and> f \<noteq> AF_INET6) \<or> l \<le> 0 \<or> addrlen < l"
  shows "fst (read_address fq buf addrlen af) = - 1"
proof -
  have r1: "rbuf fq = frame (W_INT32 f) @ (frame (W_INT32 l) @ rest)"
    using assms(1) by (simp add: frames_Cons frames_Nil)
  have r2: "rbuf (fq\<lparr>rbuf := frame (W_INT32 l) @ rest\<rparr>) = frame (W_INT32 l) @ rest"
    by simp
  show ?thesis
    unfolding read_address_def READ_INT32_int [OF r1 f]
    using bad
    by (auto simp add: READ_INT32_int [OF r2 l])
qed

text \<open>
  C9. An address that parses as IPv4 is written as the family \<open>AF_INET\<close>, the length 4
  and its four bytes in network order, and \<open>read_address\<close>, given these bytes and a
  buffer of at least four bytes, returns 0 with family \<open>AF_INET\<close>, length 4 and the
  same bytes. An address that parses as neither IPv4 nor IPv6 is written as the pair
  \<open>- 1\<close>, \<open>0\<close>, and the write returns 0. \<open>read_address\<close> fails on that pair, and on
  every family other than \<open>AF_INET\<close> and \<open>AF_INET6\<close> and every length that is not
  positive or exceeds the caller's buffer size.
\<close>

theorem address_framing:
  assumes "wroom fp = None"
  shows "(inet_pton4 E addr = Some a \<longrightarrow>
            write_address E fp addr =
              (0, fp\<lparr>wbuf := wbuf fp @
                    frames [W_INT32 AF_INET, W_INT32 4, W_TYPE (in_addr_bytes a)]\<rparr>) \<and>
            (rbuf fq = frames [W_INT32 AF_INET, W_INT32 4, W_TYPE (in_addr_bytes a)] @ rest \<and>
             4 \<le> addrlen \<longrightarrow>
               read_address fq buf addrlen af =
                 (0, fq\<lparr>rbuf := rest\<rparr>, in_addr_bytes a @ drop 4 buf, 4, AF_INET)))
       \<and> (inet_pton4 E addr' = None \<and> inet_pton6 E addr' = None \<longrightarrow>
            write_address E fp addr' =
              (0, fp\<lparr>wbuf := wbuf fp @ frames [W_INT32 (- 1), W_INT32 0]\<rparr>))
       \<and> (rbuf fq' = frames [W_INT32 (- 1), W_INT32 0] @ rest' \<longrightarrow>
            fst (read_address fq' buf' addrlen' af') = - 1)
       \<and> (rbuf fq'' = frames [W_INT32 f, W_INT32 l] @ rest'' \<and>
          - 2147483648 \<le> f \<and> f < 2147483648 \<and> - 2147483648 \<le> l \<and> l < 2147483648 \<and>
          ((f \<noteq> AF_INET \<and> f \<noteq> AF_INET6) \<or> l \<le> 0 \<or> addrlen'' < l) \<longrightarrow>
            fst (read_address fq'' buf'' addrlen'' af'') = - 1)"
proof -
  have "fst (read_address fq' buf' addrlen' af') = - 1"
    if "rbuf fq' = frames [W_INT32 (- 1), W_INT32 0] @ rest'"
    by (rule read_address_rejects [OF that]) (simp_all add: AF_INET_def AF_INET6_def)
  then show ?thesis
    using write_address_ipv4 [OF assms] write_address_unparseable [OF assms]
      read_address_ipv4 read_address_rejects
    by blast
qed

theorem address_framing_witness:
  "write_address example_env (request_stream []) ''192.0.2.1'' =
     (0, (request_stream [])\<lparr>wbuf := frames [W_INT32 AF_INET, W_INT32 4,
            W_TYPE [CHR 0xC0, CHR 0x00, CHR 0x02, CHR 0x01]]\<rparr>)
   \<and> read_address
        \<lparr>rbuf = frames [W_INT32 AF_INET, W_INT32 4,
                  W_TYPE [CHR 0xC0, CHR 0x00, CHR 0x02, CHR 0x01]] @ ''next'',
         wbuf = [], wroom = None\<rparr> (replicate 16 (CHR 0x00)) 16 0 =
       (0, \<lparr>rbuf = ''next'', wbuf = [], wroom = None\<rparr>,
        [CHR 0xC0, CHR 0x00, CHR 0x02, CHR 0x01] @ replicate 12 (CHR 0x00), 4, AF_INET)
   \<and> write_address example_env (request_stream []) ''not-an-address'' =
       (0, (request_stream [])\<lparr>wbuf := frames [W_INT32 (- 1), W_INT32 0]\<rparr>)
   \<and> fst (read_address \<lparr>rbuf = frames [W_INT32 (- 1), W_INT32 0], wbuf = [], wroom = None\<rparr>
            (replicate 16 (CHR 0x00)) 16 0) = - 1
   \<and> fst (read_address \<lparr>rbuf = frames [W_INT32 AF_INET, W_INT32 4] @ ''abcd'', wbuf = [],
              wroom = None\<rparr> [CHR 0x00, CHR 0x00] 2 0) = - 1"
  using address_framing [where fp = "request_stream []" and E = example_env
      and addr = "''192.0.2.1''" and a = "IN_ADDR (CHR 0xC0) (CHR 0x00) (CHR 0x02) (CHR 0x01)"
      and fq = "\<lparr>rbuf = frames [W_INT32 AF_INET, W_INT32 4,
                  W_TYPE [CHR 0xC0, CHR 0x00, CHR 0x02, CHR 0x01]] @ ''next'',
         wbuf = [], wroom = None\<rparr>"
      and rest = "''next''" and addrlen = 16 and buf = "replicate 16 (CHR 0x00)" and af = 0
      and addr' = "''not-an-address''"
      and fq' = "\<lparr>rbuf = frames [W_INT32 (- 1), W_INT32 0], wbuf = [], wroom = None\<rparr>"
      and rest' = "[]" and buf' = "replicate 16 (CHR 0x00)" and addrlen' = 16 and af' = 0
      and fq'' = "\<lparr>rbuf = frames [W_INT32 AF_INET, W_INT32 4] @ ''abcd'', wbuf = [],
                   wroom = None\<rparr>"
      and f = AF_INET and l = 4 and rest'' = "''abcd''" and addrlen'' = 2
      and buf'' = "[CHR 0x00, CHR 0x00]" and af'' = 0]
  by (simp add: example_env_def request_stream_def AF_INET_def frames_Nil)

section \<open>The name validator\<close>

lemma char_mem_code: "c \<in> A \<longleftrightarrow> (of_char c :: nat) \<in> of_char ` A"
  by (simp add: inj_image_mem_iff inj_of_char)

lemma char_eq_code: "c = d \<longleftrightarrow> (of_char c :: nat) = of_char d"
  by simp

lemma upper_codes:
  "(64 \<le> n \<and> n \<le> 90) \<longleftrightarrow> (n::nat) \<in> of_char ` set ''@ABCDEFGHIJKLMNOPQRSTUVWXYZ''"
  by (simp del: of_char_eq_iff) arith

lemma lower_codes:
  "(97 \<le> n \<and> n \<le> 122) \<longleftrightarrow> (n::nat) \<in> of_char ` set ''abcdefghijklmnopqrstuvwxyz''"
  by (simp del: of_char_eq_iff) arith

lemma digit_codes:
  "(48 \<le> n \<and> n \<le> 57) \<longleftrightarrow> (n::nat) \<in> of_char ` set ''0123456789''"
  by (simp del: of_char_eq_iff) arith

lemma other_codes:
  "(n = 46 \<or> n = 95 \<or> n = 36) \<longleftrightarrow> (n::nat) \<in> of_char ` set ''._$''"
  by (simp del: of_char_eq_iff)

lemma everywhere_chars:
  "((c \<ge> CHR ''@'' \<and> c \<le> CHR ''Z'') \<or> (c \<ge> CHR ''a'' \<and> c \<le> CHR ''z'') \<or>
    (c \<ge> CHR ''0'' \<and> c \<le> CHR ''9'') \<or> c = CHR ''.'' \<or> c = CHR ''_'' \<or> c = CHR ''$'')
   \<longleftrightarrow> c \<in> set (''@ABCDEFGHIJKLMNOPQRSTUVWXYZ'' @ ''abcdefghijklmnopqrstuvwxyz'' @
                 ''0123456789'' @ ''._$'')"
  (is "?L \<longleftrightarrow> c \<in> ?A")
proof -
  define n :: nat where "n = of_char c"
  have "(64 \<le> n \<and> n \<le> 90 \<or> 97 \<le> n \<and> n \<le> 122 \<or> 48 \<le> n \<and> n \<le> 57 \<or>
         n = 46 \<or> n = 95 \<or> n = 36) \<longleftrightarrow> n \<in> of_char ` ?A"
    unfolding set_append image_Un Un_iff upper_codes lower_codes digit_codes other_codes ..
  then show ?thesis
    unfolding n_def less_eq_char_def char_mem_code [of c ?A] char_eq_code [of c]
    by simp
qed

lemma c_at_in_range: "i < length s \<Longrightarrow> c_at s i = s ! i"
  by (simp add: c_at_def)

lemma c_at_nul_iff: "CHR 0x00 \<notin> set s \<Longrightarrow> c_at s i = CHR 0x00 \<longleftrightarrow> length s \<le> i"
  by (auto simp: c_at_def dest: nth_mem)

lemma isvalidname_loop_range: "isvalidname_loop lnm s i = 0 \<or> isvalidname_loop lnm s i = - 1"
  by (induction lnm s i rule: isvalidname_loop.induct)
     (subst (1 2) isvalidname_loop.simps, simp)

lemma all_from_split:
  "i < n \<Longrightarrow> (\<forall>j. i \<le> j \<and> j < n \<longrightarrow> P j) \<longleftrightarrow> P i \<and> (\<forall>j. Suc i \<le> j \<and> j < n \<longrightarrow> P j)"
  by (metis Suc_leI le_eq_less_or_eq Suc_le_lessD order_refl)

text \<open>
  The loop started at \<open>i\<close> runs to the end exactly when every position from \<open>i\<close> on
  passes one of the three tests of its body.
\<close>

lemma isvalidname_loop_accepts:
  assumes "CHR 0x00 \<notin> set s"
    and A: "\<And>c. ((c \<ge> CHR ''@'' \<and> c \<le> CHR ''Z'') \<or> (c \<ge> CHR ''a'' \<and> c \<le> CHR ''z'') \<or>
    (c \<ge> CHR ''0'' \<and> c \<le> CHR ''9'') \<or> c = CHR ''.'' \<or> c = CHR ''_'' \<or> c = CHR ''$'')
   \<longleftrightarrow> c \<in> A"
  shows "isvalidname_loop lnm s i = - 1 \<longleftrightarrow>
    (\<forall>j. i \<le> j \<and> j < length s \<longrightarrow>
       (case lnm of Some m \<Rightarrow> j < m | None \<Rightarrow> True) \<and>
       (s ! j \<in> A \<or>
        0 < j \<and> (s ! j = CHR ''-'' \<or> s ! j = CHR ''~'') \<or>
        0 < j \<and> Suc j < length s \<and> (s ! j = CHR 0x5C \<or> s ! j = CHR '' '')))"
  (is "_ \<longleftrightarrow> (\<forall>j. i \<le> j \<and> j < length s \<longrightarrow> ?ok lnm s j)")
  using assms(1)
proof (induction lnm s i rule: isvalidname_loop.induct)
  case (1 lnm name i)
  note nul = c_at_nul_iff [OF "1.prems"]
  show ?case
  proof (cases "i < length name")
    case False
    then have "isvalidname_loop lnm name i = - 1"
      by (subst isvalidname_loop.simps) (simp add: nul)
    moreover have "\<And>j. \<not> (i \<le> j \<and> j < length name)"
      using False by arith
    ultimately show ?thesis by blast
  next
    case True
    have here: "c_at name i = name ! i" "c_at name i \<noteq> CHR 0x00"
      using True by (simp add: c_at_in_range, simp add: nul)
    have nxt: "c_at name (i + 1) \<noteq> CHR 0x00 \<longleftrightarrow> Suc i < length name"
      by (auto simp: nul)
    have split: "(\<forall>j. i \<le> j \<and> j < length name \<longrightarrow> ?ok lnm name j) \<longleftrightarrow>
        ?ok lnm name i \<and> (\<forall>j. Suc i \<le> j \<and> j < length name \<longrightarrow> ?ok lnm name j)"
      by (rule all_from_split [OF True])
    show ?thesis
    proof (cases "case lnm of Some m \<Rightarrow> i \<ge> m | None \<Rightarrow> False")
      case over: True
      then have "isvalidname_loop lnm name i = 0"
        using here by (subst isvalidname_loop.simps) simp
      moreover have "\<not> ?ok lnm name i"
        using over by (auto split: option.splits)
      ultimately show ?thesis unfolding split by simp
    next
      case under: False
      then have bound: "(case lnm of Some m \<Rightarrow> i < m | None \<Rightarrow> True)"
        by (auto split: option.splits)
      let ?c = "c_at name i"
      let ?ev = "(?c \<ge> CHR ''@'' \<and> ?c \<le> CHR ''Z'') \<or> (?c \<ge> CHR ''a'' \<and> ?c \<le> CHR ''z'') \<or>
                 (?c \<ge> CHR ''0'' \<and> ?c \<le> CHR ''9'') \<or> ?c = CHR ''.'' \<or> ?c = CHR ''_'' \<or> ?c = CHR ''$''"
      let ?dash = "i > 0 \<and> (?c = CHR ''-'' \<or> ?c = CHR ''~'')"
      let ?mid = "(i > 0 \<and> c_at name (i + 1) \<noteq> CHR 0x00) \<and> (?c = CHR 0x5C \<or> ?c = CHR '' '')"
      consider (ev) ?ev | (dash) "\<not> ?ev" ?dash | (mid) "\<not> ?ev" "\<not> ?dash" ?mid
        | (bad) "\<not> ?ev" "\<not> ?dash" "\<not> ?mid"
        by blast
      then show ?thesis
      proof cases
        case ev
        have "isvalidname_loop lnm name i = isvalidname_loop lnm name (i + 1)"
          by (subst isvalidname_loop.simps)
             (simp only: here(2) under ev if_True if_False if_cancel simp_thms)
        moreover note "1.IH"(1) [OF here(2) under ev "1.prems"]
        moreover have "?ok lnm name i"
          using ev bound by (simp add: A [symmetric] here(1))
        ultimately show ?thesis unfolding split by simp
      next
        case dash
        have "isvalidname_loop lnm name i = isvalidname_loop lnm name (i + 1)"
          by (subst isvalidname_loop.simps)
             (simp only: here(2) under dash if_True if_False if_cancel simp_thms)
        moreover note "1.IH"(2) [OF here(2) under dash "1.prems"]
        moreover have "?ok lnm name i"
          using dash bound by (simp add: here(1))
        ultimately show ?thesis unfolding split by simp
      next
        case mid
        have "isvalidname_loop lnm name i = isvalidname_loop lnm name (i + 1)"
          by (subst isvalidname_loop.simps)
             (simp only: here(2) under mid if_True if_False if_cancel simp_thms)
        moreover note "1.IH"(3) [OF here(2) under mid "1.prems"]
        moreover have "?ok lnm name i"
          using mid bound unfolding nxt by (simp add: here(1))
        ultimately show ?thesis unfolding split by simp
      next
        case bad
        have "isvalidname_loop lnm name i = 0"
          by (subst isvalidname_loop.simps)
             (simp only: here(2) under bad if_True if_False if_cancel simp_thms)
        moreover have "\<not> ?ok lnm name i"
          using bad unfolding nxt A here(1) by blast
        ultimately show ?thesis unfolding split by simp
      qed
    qed
  qed
qed

lemma special_chars_apart:
  "CHR ''-'' \<notin> set (''@ABCDEFGHIJKLMNOPQRSTUVWXYZ'' @ ''abcdefghijklmnopqrstuvwxyz'' @
                 ''0123456789'' @ ''._$'')"
  "CHR ''~'' \<notin> set (''@ABCDEFGHIJKLMNOPQRSTUVWXYZ'' @ ''abcdefghijklmnopqrstuvwxyz'' @
                 ''0123456789'' @ ''._$'')"
  "CHR 0x5C \<notin> set (''@ABCDEFGHIJKLMNOPQRSTUVWXYZ'' @ ''abcdefghijklmnopqrstuvwxyz'' @
                 ''0123456789'' @ ''._$'')"
  "CHR '' '' \<notin> set (''@ABCDEFGHIJKLMNOPQRSTUVWXYZ'' @ ''abcdefghijklmnopqrstuvwxyz'' @
                 ''0123456789'' @ ''._$'')"
  by simp_all

lemma name_chars_split:
  "c \<in> set ''@ABCDEFGHIJKLMNOPQRSTUVWXYZabcdefghijklmnopqrstuvwxyz0123456789._$-~ '' \<union> {CHR 0x5C}
   \<longleftrightarrow> c \<in> set (''@ABCDEFGHIJKLMNOPQRSTUVWXYZ'' @ ''abcdefghijklmnopqrstuvwxyz'' @
                 ''0123456789'' @ ''._$'') \<or>
       c = CHR ''-'' \<or> c = CHR ''~'' \<or> c = CHR 0x5C \<or> c = CHR '' ''"
  by auto

lemma rejects_iff_gen:
  fixes s :: string and E N :: "char set"
  assumes ne: "s \<noteq> []"
    and apart: "CHR ''-'' \<notin> E" "CHR ''~'' \<notin> E" "CHR 0x5C \<notin> E" "CHR '' '' \<notin> E"
    and N: "\<And>c. c \<in> N \<longleftrightarrow> c \<in> E \<or> c = CHR ''-'' \<or> c = CHR ''~'' \<or> c = CHR 0x5C \<or> c = CHR '' ''"
  shows "(\<exists>j < length s. \<not> ((case lnm of Some m \<Rightarrow> j < m | None \<Rightarrow> True) \<and>
       (s ! j \<in> E \<or>
        0 < j \<and> (s ! j = CHR ''-'' \<or> s ! j = CHR ''~'') \<or>
        0 < j \<and> Suc j < length s \<and> (s ! j = CHR 0x5C \<or> s ! j = CHR '' ''))))
    \<longleftrightarrow> ((\<exists>c\<in>set s. c \<notin> N)
           \<or> hd s \<in> {CHR ''-'', CHR ''~'', CHR 0x5C, CHR '' ''}
           \<or> last s \<in> {CHR 0x5C, CHR '' ''}
           \<or> (case lnm of Some m \<Rightarrow> m < length s | None \<Rightarrow> False))"
  (is "(\<exists>j < length s. \<not> ?ok j) \<longleftrightarrow> ?R")
proof
  assume "\<exists>j < length s. \<not> ?ok j"
  then obtain j where j: "j < length s" and bad: "\<not> ?ok j" by blast
  have hd: "hd s = s ! 0" using ne by (simp add: hd_conv_nth)
  have last: "last s = s ! (length s - 1)" using ne by (simp add: last_conv_nth)
  show ?R
  proof (cases "case lnm of Some m \<Rightarrow> j < m | None \<Rightarrow> True")
    case False
    then have "case lnm of Some m \<Rightarrow> m < length s | None \<Rightarrow> False"
      using j by (auto split: option.splits)
    then show ?thesis by simp
  next
    case True
    show ?thesis
    proof (cases "s ! j \<in> N")
      case False
      then show ?thesis using j nth_mem by blast
    next
      case inN: True
      have notE: "s ! j \<notin> E" using bad True by blast
      then consider (d) "s ! j = CHR ''-'' \<or> s ! j = CHR ''~''"
        | (m) "s ! j = CHR 0x5C \<or> s ! j = CHR '' ''"
        using inN N by blast
      then show ?thesis
      proof cases
        case d
        then have "j = 0" using bad True by auto
        then show ?thesis using d hd by auto
      next
        case m
        then have "j = 0 \<or> \<not> Suc j < length s" using bad True by auto
        then have "j = 0 \<or> j = length s - 1" using j by arith
        then show ?thesis using m hd last by auto
      qed
    qed
  qed
next
  assume R: ?R
  have len: "0 < length s" using ne by simp
  have hd: "hd s = s ! 0" using ne by (simp add: hd_conv_nth)
  have last: "last s = s ! (length s - 1)" using ne by (simp add: last_conv_nth)
  from R consider (chr) "\<exists>c\<in>set s. c \<notin> N"
    | (first) "hd s \<in> {CHR ''-'', CHR ''~'', CHR 0x5C, CHR '' ''}"
    | (final) "last s \<in> {CHR 0x5C, CHR '' ''}"
    | (long) "case lnm of Some m \<Rightarrow> m < length s | None \<Rightarrow> False"
    by blast
  then show "\<exists>j < length s. \<not> ?ok j"
  proof cases
    case chr
    then obtain j where "j < length s" "s ! j \<notin> N"
      by (auto simp: in_set_conv_nth)
    moreover from this have "\<not> ?ok j" using N by blast
    ultimately show ?thesis by blast
  next
    case first
    then have "s ! 0 \<notin> E" using apart hd by auto
    then have "\<not> ?ok 0" by simp
    then show ?thesis using len by blast
  next
    case final
    let ?j = "length s - 1"
    have "s ! ?j \<notin> E" "s ! ?j \<noteq> CHR ''-''" "s ! ?j \<noteq> CHR ''~''" "\<not> Suc ?j < length s"
      using final apart last by auto
    then have "\<not> ?ok ?j" by blast
    moreover have "?j < length s" using len by simp
    ultimately show ?thesis by blast
  next
    case long
    then obtain m where "lnm = Some m" "m < length s"
      by (auto split: option.splits)
    then have "m < length s" "\<not> ?ok m" by simp_all
    then show ?thesis by blast
  qed
qed

text \<open>
  C5. For every string \<open>s\<close> (a C string: no NUL among its characters), \<open>isvalidname\<close>
  returns 0 exactly when \<open>s\<close> is empty, or contains a character outside \<open>@\<close>, \<open>A-Z\<close>,
  \<open>a-z\<close>, \<open>0-9\<close>, \<open>.\<close>, \<open>_\<close>, \<open>$\<close>, \<open>-\<close>, \<open>~\<close>, backslash and space, or starts
  with \<open>-\<close>, \<open>~\<close>, backslash or space, or ends with backslash or space, or is longer
  than \<open>LOGIN_NAME_MAX\<close> where the platform defines it; otherwise it returns \<open>- 1\<close>.
\<close>

theorem isvalidname_rejects_iff:
  assumes "CHR 0x00 \<notin> set s"
  shows "(isvalidname E (Some s) = 0 \<longleftrightarrow>
            s = []
          \<or> (\<exists>c\<in>set s. c \<notin> set ''@ABCDEFGHIJKLMNOPQRSTUVWXYZabcdefghijklmnopqrstuvwxyz0123456789._$-~ '' \<union> {CHR 0x5C})
          \<or> (s \<noteq> [] \<and> hd s \<in> {CHR ''-'', CHR ''~'', CHR 0x5C, CHR '' ''})
          \<or> (s \<noteq> [] \<and> last s \<in> {CHR 0x5C, CHR '' ''})
          \<or> (case LOGIN_NAME_MAX E of Some m \<Rightarrow> m < length s | None \<Rightarrow> False))
       \<and> (isvalidname E (Some s) \<noteq> 0 \<longrightarrow> isvalidname E (Some s) = - 1)"
proof (cases "s = []")
  case True
  then show ?thesis by (simp add: isvalidname_def c_at_def)
next
  case False
  let ?lnm = "LOGIN_NAME_MAX E"
  have val: "isvalidname E (Some s) = isvalidname_loop ?lnm s 0"
    using False c_at_nul_iff [OF assms, of 0] by (simp add: isvalidname_def)
  have "isvalidname_loop ?lnm s 0 = 0 \<longleftrightarrow> \<not> isvalidname_loop ?lnm s 0 = - 1"
    using isvalidname_loop_range [of ?lnm s 0] by auto
  also have "\<dots> \<longleftrightarrow> (\<exists>j < length s. \<not> ((case ?lnm of Some m \<Rightarrow> j < m | None \<Rightarrow> True) \<and>
       (s ! j \<in> set (''@ABCDEFGHIJKLMNOPQRSTUVWXYZ'' @ ''abcdefghijklmnopqrstuvwxyz'' @
                 ''0123456789'' @ ''._$'') \<or>
        0 < j \<and> (s ! j = CHR ''-'' \<or> s ! j = CHR ''~'') \<or>
        0 < j \<and> Suc j < length s \<and> (s ! j = CHR 0x5C \<or> s ! j = CHR '' ''))))"
    unfolding isvalidname_loop_accepts [OF assms everywhere_chars] by blast
  also note rejects_iff_gen [OF False special_chars_apart name_chars_split]
  finally show ?thesis
    using False isvalidname_loop_range [of ?lnm s 0] unfolding val by blast
qed

theorem isvalidname_rejects_iff_witness:
  "CHR 0x00 \<notin> set ''a b'' \<and> isvalidname example_env (Some ''a b'') = - 1 \<and>
   CHR 0x00 \<notin> set ''a '' \<and> isvalidname example_env (Some ''a '') = 0 \<and>
   isvalidname example_env (Some ''-alice'') = 0 \<and>
   isvalidname example_env (Some ''alice$'') = - 1"
  using isvalidname_rejects_iff [of "''a b''" example_env]
    isvalidname_rejects_iff [of "''a ''" example_env]
    isvalidname_rejects_iff [of "''-alice''" example_env]
    isvalidname_rejects_iff [of "''alice$''" example_env]
  by (simp add: example_env_def)

section \<open>Facts about the sample deployment\<close>

lemma example_env_fields:
  "LOGIN_NAME_MAX example_env = Some 256"
  "HOST_NAME_MAX example_env = 64"
  "NSLCD_VERSION example_env = 1"
  "NSLCD_ACTION_PAM_AUTHC example_env = 20001"
  "NSLCD_ACTION_PAM_AUTHZ example_env = 20002"
  "NSLCD_ACTION_PAM_PWMOD example_env = 20005"
  "NSLCD_RESULT_BEGIN example_env = 0"
  "NSLCD_RESULT_END example_env = 3"
  "NSLCD_PAM_SUCCESS example_env = 0"
  "NSLCD_PAM_PERM_DENIED example_env = 6"
  "NSLCD_PAM_AUTH_ERR example_env = 7"
  "NSLCD_PAM_AUTHINFO_UNAVAIL example_env = 9"
  "nslcd_cfg example_env = example_cfg"
  "attmap_passwd_uid example_env = ''uid''"
  "myldap_create_session example_env = Some \<lparr>session_binddn = None, session_bindpw = None\<rparr>"
  "myldap_get_entry example_env srch =
     (if srch = 10 \<or> srch = 20 then (Some 1, LDAP_SUCCESS) else (None, LDAP_SUCCESS))"
  "myldap_cpy_dn example_env entry buf buflen =
     (if length (example_dn entry) < buflen then example_dn entry else buf)"
  "myldap_get_rdn_value example_env entry attr =
     (if attr = ''uid'' \<and> entry = 1 then Some ''alice''
      else if attr = ''uid'' \<and> entry = 2 then Some ''Bob'' else None)"
  "myldap_get_values example_env entry attr = (if entry = 4 then Some [] else None)"
  "myldap_passwd example_env session dn oldpw newpw =
     (if oldpw = None \<or> oldpw = session_bindpw session then LDAP_SUCCESS
      else LDAP_INVALID_CREDENTIALS)"
  "myldap_escape example_env val sz = (if length val < sz then Some val else None)"
  "uid2entry example_env session username =
     (if username = ''alice'' then (Some 1, LDAP_SUCCESS)
      else if username = ''bob'' then (Some 2, LDAP_SUCCESS)
      else if username = ''ghost'' then (Some 3, LDAP_SUCCESS)
      else if username = ''nouid'' then (Some 4, LDAP_SUCCESS)
      else (None, LDAP_SUCCESS))"
  "lookup_dn2uid example_env session dn buflen =
     (if dn = example_dn 1 then (Some ''alice'', LDAP_SUCCESS)
      else if dn = example_dn 2 then (Some ''Bob'', LDAP_SUCCESS)
      else (None, LDAP_NO_SUCH_OBJECT))"
  "update_lastchange example_env session dn = LDAP_SUCCESS"
  "ldap_err2string example_env rc = ''error''"
  "malloc example_env sz = True"
  "gethostname example_env buflen = Some ''host1''"
  "gethostbyname example_env hostname = Some (''host1.example.com'', [])"
  "inet_pton4 example_env addr =
     (if addr = ''192.0.2.1'' then Some (IN_ADDR (CHR 0xC0) (CHR 0x00) (CHR 0x02) (CHR 0x01))
      else None)"
  "inet_pton6 example_env addr = None"
  by (simp_all add: example_env_def)

lemma example_myldap_search:
  "myldap_search example_env session base scope fltr attrs =
     (if scope = LDAP_SCOPE_BASE then
        (if (session_binddn session = Some (example_dn 1) \<and>
             session_bindpw session = Some ''wonderland'') \<or>
            (session_binddn session = Some ''cn=admin,dc=example,dc=com'' \<and>
             session_bindpw session = Some ''adminsecret'')
         then (Some 10, LDAP_SUCCESS)
         else if session_binddn session = Some (example_dn 2) \<and>
                 session_bindpw session = Some ''builder''
         then (Some 11, LDAP_SUCCESS)
         else (None, LDAP_INVALID_CREDENTIALS))
      else if fltr = ''(&(objectClass=posixAccount)(uid=alice))'' then (Some 20, LDAP_SUCCESS)
      else (Some 21, LDAP_SUCCESS))"
  by (simp add: example_env_def)

lemma example_expr_parse:
  "expr_parse example_env template buflen var_get =
     (if template = ''(&(objectClass=posixAccount)(uid=$username))'' then
        (case var_get ''username'' of
           Some u \<Rightarrow> Some (''(&(objectClass=posixAccount)(uid='' @ u @ ''))'')
         | None \<Rightarrow> Some ''(&(objectClass=posixAccount)(uid=))'')
      else None)"
  by (simp add: example_env_def)

lemmas ldap_codes = LDAP_SUCCESS_def LDAP_INVALID_SYNTAX_def LDAP_NO_SUCH_OBJECT_def
  LDAP_INVALID_CREDENTIALS_def LDAP_UNAVAILABLE_def LDAP_LOCAL_ERROR_def
  LDAP_NO_RESULTS_RETURNED_def LDAP_SCOPE_BASE_def LDAP_SCOPE_SUBTREE_def

lemma example_names:
  "isvalidname example_env (Some ''alice'') = - 1"
  "isvalidname example_env (Some ''bob'') = - 1"
  "isvalidname example_env (Some ''Bob'') = - 1"
  "isvalidname example_env (Some ''carol'') = - 1"
  "isvalidname example_env (Some ''ghost'') = - 1"
  "isvalidname example_env (Some ''nouid'') = - 1"
  "isvalidname example_env (Some ''-x'') = 0"
  "isvalidname example_env (Some []) = 0"
  by (simp_all add: isvalidname_def example_env_fields c_at_def isvalidname_loop.simps)

section \<open>The user resolver\<close>

lemma c_at_0_nonempty: "s \<noteq> [] \<Longrightarrow> CHR 0x00 \<notin> set s \<Longrightarrow> c_at s 0 \<noteq> CHR 0x00"
  using c_at_nul_iff [of s 0] by simp

lemma c_at_0_empty: "c_at [] 0 = CHR 0x00"
  by (simp add: c_at_def)

text \<open>
  C10. When the supplied DN is not empty, \<open>validate_user\<close> makes no call on the
  directory, leaves the DN and the username as they were, and returns \<open>LDAP_SUCCESS\<close>
  if the username passes \<open>isvalidname\<close> and \<open>LDAP_NO_SUCH_OBJECT\<close> otherwise.
\<close>

theorem validate_user_known_dn:
  assumes "userdn \<noteq> []" and "CHR 0x00 \<notin> set userdn"
  shows "validate_user E session userdn userdnsz username usernamesz =
           (Returns ((if isvalidname E (Some username) \<noteq> 0 then LDAP_SUCCESS
                      else LDAP_NO_SUCH_OBJECT), userdn, username), [])"
  using c_at_0_nonempty [OF assms] by (simp add: validate_user_def)

theorem validate_user_known_dn_witness:
  "''cn=x'' \<noteq> [] \<and> CHR 0x00 \<notin> set ''cn=x'' \<and>
   validate_user example_env example_session ''cn=x'' 256 ''carol'' 256 =
     (Returns (LDAP_SUCCESS, ''cn=x'', ''carol''), []) \<and>
   validate_user example_env example_session ''cn=x'' 256 ''-carol'' 256 =
     (Returns (LDAP_NO_SUCH_OBJECT, ''cn=x'', ''-carol''), [])"
  using validate_user_known_dn [of "''cn=x''" example_env example_session 256 "''carol''" 256]
    validate_user_known_dn [of "''cn=x''" example_env example_session 256 "''-carol''" 256]
  by (simp add: isvalidname_def example_env_fields c_at_def isvalidname_loop.simps ldap_codes)

text \<open>
  C7, as amended. Called with an empty DN, \<open>validate_user\<close> returns
  \<open>LDAP_NO_SUCH_OBJECT\<close> when the username fails \<open>isvalidname\<close>, when the lookup finds
  no entry and reports success, and when the DN of the entry found equals \<open>unknown\<close>
  without regard to case; it returns \<open>LDAP_INVALID_SYNTAX\<close> when the entry has neither
  an RDN value nor a first value of the uid attribute (the list of values being there
  and empty), and when the canonical username fails \<open>isvalidname\<close> or does not fit the
  caller's username buffer.
\<close>

theorem validate_user_absent_dn:
  "(isvalidname E (Some username) = 0 \<longrightarrow>
      fst (validate_user E session [] userdnsz username usernamesz) =
        Returns (LDAP_NO_SUCH_OBJECT, [], username))
 \<and> (isvalidname E (Some username) \<noteq> 0 \<and> uid2entry E session username = (None, LDAP_SUCCESS) \<longrightarrow>
      fst (validate_user E session [] userdnsz username usernamesz) =
        Returns (LDAP_NO_SUCH_OBJECT, [], username))
 \<and> (isvalidname E (Some username) \<noteq> 0 \<and> uid2entry E session username = (Some entry, rc) \<and>
     strcasecmp (myldap_cpy_dn E entry [] userdnsz) ''unknown'' = 0 \<longrightarrow>
      fst (validate_user E session [] userdnsz username usernamesz) =
        Returns (LDAP_NO_SUCH_OBJECT, myldap_cpy_dn E entry [] userdnsz, username))
 \<and> (isvalidname E (Some username) \<noteq> 0 \<and> uid2entry E session username = (Some entry, rc) \<and>
     strcasecmp (myldap_cpy_dn E entry [] userdnsz) ''unknown'' \<noteq> 0 \<and>
     myldap_get_rdn_value E entry (attmap_passwd_uid E) = None \<and>
     myldap_get_values E entry (attmap_passwd_uid E) = Some [] \<longrightarrow>
      fst (validate_user E session [] userdnsz username usernamesz) =
        Returns (LDAP_INVALID_SYNTAX, myldap_cpy_dn E entry [] userdnsz, username))
 \<and> (isvalidname E (Some username) \<noteq> 0 \<and> uid2entry E session username = (Some entry, rc) \<and>
     strcasecmp (myldap_cpy_dn E entry [] userdnsz) ''unknown'' \<noteq> 0 \<and>
     (myldap_get_rdn_value E entry (attmap_passwd_uid E) = Some v \<or>
      myldap_get_rdn_value E entry (attmap_passwd_uid E) = None \<and>
      myldap_get_values E entry (attmap_passwd_uid E) = Some (v # vs)) \<and>
     (isvalidname E (Some v) = 0 \<or> usernamesz \<le> length v) \<longrightarrow>
      fst (validate_user E session [] userdnsz username usernamesz) =
        Returns (LDAP_INVALID_SYNTAX, myldap_cpy_dn E entry [] userdnsz, username))"
  by (auto simp add: validate_user_def c_at_0_empty)


theorem validate_user_absent_dn_witness:
  "fst (validate_user example_env example_session [] 256 ''-x'' 256) =
     Returns (LDAP_NO_SUCH_OBJECT, [], ''-x'')
 \<and> fst (validate_user example_env example_session [] 256 ''carol'' 256) =
     Returns (LDAP_NO_SUCH_OBJECT, [], ''carol'')
 \<and> fst (validate_user example_env example_session [] 256 ''ghost'' 256) =
     Returns (LDAP_NO_SUCH_OBJECT, ''unknown'', ''ghost'')
 \<and> fst (validate_user example_env example_session [] 256 ''nouid'' 256) =
     Returns (LDAP_INVALID_SYNTAX, ''cn=nouid,dc=example,dc=com'', ''nouid'')
 \<and> fst (validate_user example_env example_session [] 256 ''alice'' 3) =
     Returns (LDAP_INVALID_SYNTAX, ''uid=alice,dc=example,dc=com'', ''alice'')"
  using validate_user_absent_dn [of example_env "''-x''" example_session 256 256]
    validate_user_absent_dn [of example_env "''carol''" example_session 256 256]
    validate_user_absent_dn [of example_env "''ghost''" example_session 256 256 3 LDAP_SUCCESS]
    validate_user_absent_dn [of example_env "''nouid''" example_session 256 256 4 LDAP_SUCCESS]
    validate_user_absent_dn [of example_env "''alice''" example_session 256 3 1 LDAP_SUCCESS "''alice''"]
  by (simp add: example_names example_env_fields example_dn_def tolower_def less_eq_char_def
      ldap_codes)

text \<open>
  The claim as stated fails on an entry whose DN is \<open>unknown\<close>: the code answers
  \<open>LDAP_NO_SUCH_OBJECT\<close>, not \<open>LDAP_INVALID_SYNTAX\<close>.
\<close>

theorem validate_user_unknown_dn_counterexample:
  "uid2entry example_env example_session ''ghost'' = (Some 3, LDAP_SUCCESS)
 \<and> myldap_cpy_dn example_env 3 [] 256 = ''unknown''
 \<and> fst (validate_user example_env example_session [] 256 ''ghost'' 256) =
     Returns (LDAP_NO_SUCH_OBJECT, ''unknown'', ''ghost'')
 \<and> LDAP_NO_SUCH_OBJECT \<noteq> LDAP_INVALID_SYNTAX"
  by (simp add: validate_user_def example_names example_env_fields example_dn_def c_at_def
      tolower_def less_eq_char_def ldap_codes)


lemma example_cfg_fields:
  "ldc_rootpwmoddn example_cfg = Some ''cn=admin,dc=example,dc=com''"
  "ldc_rootpwmodpw example_cfg = Some ''adminsecret''"
  "ldc_pam_authz_search example_cfg = Some ''(&(objectClass=posixAccount)(uid=$username))''"
  "ldc_bases example_cfg i = (if i = 0 then Some ''dc=example,dc=com'' else None)"
  by (simp_all add: example_cfg_def)

section \<open>The bind verifier\<close>

text \<open>
  C8, as amended. Once the session exists, \<open>try_bind\<close> returns the result code of a
  failed search, or \<open>LDAP_LOCAL_ERROR\<close> where the search reports success without a
  search handle; it returns the result code of a failed entry retrieval, or
  \<open>LDAP_NO_RESULTS_RETURNED\<close> where the retrieval reports success without an entry;
  it returns \<open>LDAP_SUCCESS\<close> when both succeed. On each of these paths the last call
  it makes closes the session, and it closes it once.
\<close>

theorem try_bind_result:
  assumes "myldap_create_session E = Some session0"
  shows "(myldap_search E (myldap_set_credentials session0 userdn password) (Some userdn)
            LDAP_SCOPE_BASE ''(objectClass=*)'' [''dn''] = (search, rc) \<and>
          (search = None \<or> rc \<noteq> LDAP_SUCCESS) \<longrightarrow>
            fst (try_bind E userdn password) = (if rc = LDAP_SUCCESS then LDAP_LOCAL_ERROR else rc))
       \<and> (myldap_search E (myldap_set_credentials session0 userdn password) (Some userdn)
            LDAP_SCOPE_BASE ''(objectClass=*)'' [''dn''] = (Some srch, LDAP_SUCCESS) \<and>
          myldap_get_entry E srch = (entry, rc') \<and> (entry = None \<or> rc' \<noteq> LDAP_SUCCESS) \<longrightarrow>
            fst (try_bind E userdn password) =
              (if rc' = LDAP_SUCCESS then LDAP_NO_RESULTS_RETURNED else rc'))
       \<and> (myldap_search E (myldap_set_credentials session0 userdn password) (Some userdn)
            LDAP_SCOPE_BASE ''(objectClass=*)'' [''dn''] = (Some srch, LDAP_SUCCESS) \<and>
          myldap_get_entry E srch = (Some e, LDAP_SUCCESS) \<longrightarrow>
            fst (try_bind E userdn password) = LDAP_SUCCESS)
       \<and> (\<exists>calls. snd (try_bind E userdn password) =
                     calls @ [Session_close (myldap_set_credentials session0 userdn password)] \<and>
                   (\<forall>s. Session_close s \<notin> set calls))"
  by (auto simp add: try_bind_def assms Let_def split: prod.splits option.splits)

theorem try_bind_result_witness:
  "myldap_create_session example_env = Some example_session
 \<and> fst (try_bind example_env ''uid=alice,dc=example,dc=com'' ''wrong'') = LDAP_INVALID_CREDENTIALS
 \<and> fst (try_bind example_env ''uid=Bob,dc=example,dc=com'' ''builder'') = LDAP_NO_RESULTS_RETURNED
 \<and> fst (try_bind example_env ''uid=alice,dc=example,dc=com'' ''wonderland'') = LDAP_SUCCESS
 \<and> (\<exists>calls. snd (try_bind example_env ''uid=alice,dc=example,dc=com'' ''wonderland'') =
       calls @ [Session_close \<lparr>session_binddn = Some ''uid=alice,dc=example,dc=com'',
                                session_bindpw = Some ''wonderland''\<rparr>] \<and>
       (\<forall>s. Session_close s \<notin> set calls))"
  using try_bind_result [of example_env example_session "''uid=alice,dc=example,dc=com''"
      "''wrong''" None LDAP_INVALID_CREDENTIALS]
    try_bind_result [of example_env example_session "''uid=Bob,dc=example,dc=com''"
      "''builder''" _ _ 11 None LDAP_SUCCESS]
    try_bind_result [of example_env example_session "''uid=alice,dc=example,dc=com''"
      "''wonderland''" _ _ 10 _ _ 1]
  by (simp add: example_env_fields example_myldap_search example_session_def example_dn_def
      myldap_set_credentials_def ldap_codes)

text \<open>
  The claim as stated fails where the search succeeds and no entry comes back with a
  success code: the code answers \<open>LDAP_NO_RESULTS_RETURNED\<close>, not \<open>LDAP_LOCAL_ERROR\<close>.
\<close>

theorem try_bind_no_entry_counterexample:
  "myldap_create_session example_env = Some example_session
 \<and> myldap_search example_env
       (myldap_set_credentials example_session ''uid=Bob,dc=example,dc=com'' ''builder'')
       (Some ''uid=Bob,dc=example,dc=com'') LDAP_SCOPE_BASE ''(objectClass=*)'' [''dn''] =
     (Some 11, LDAP_SUCCESS)
 \<and> myldap_get_entry example_env 11 = (None, LDAP_SUCCESS)
 \<and> fst (try_bind example_env ''uid=Bob,dc=example,dc=com'' ''builder'') =
     LDAP_NO_RESULTS_RETURNED
 \<and> LDAP_NO_RESULTS_RETURNED \<noteq> LDAP_LOCAL_ERROR"
  by (simp add: try_bind_def example_env_fields example_myldap_search example_session_def
      example_dn_def myldap_set_credentials_def ldap_codes Let_def)

section \<open>The password change\<close>

text \<open>
  C4. Every password modification \<open>try_pwmod\<close> asks of the directory is for the target
  DN and the new secret it was given, with no old secret when the bind DN is the
  configured administrator DN and with the old secret it was given otherwise; and once
  the session exists and the target DN resolves, it does ask for that modification and
  returns its result code.
\<close>

theorem try_pwmod_old_secret:
  "(\<forall>s dn old new.
      Passwd s dn old new \<in> set (snd (try_pwmod E binddn userdn oldpassword newpassword)) \<longrightarrow>
        dn = userdn \<and> new = newpassword \<and>
        old = (if ldc_rootpwmoddn (nslcd_cfg E) = Some binddn then None else Some oldpassword))
 \<and> (myldap_create_session E = Some session0 \<and>
     lookup_dn2uid E (myldap_set_credentials session0 binddn oldpassword) userdn 256 =
       (Some uid, LDAP_SUCCESS) \<longrightarrow>
       Passwd (myldap_set_credentials session0 binddn oldpassword) userdn
         (if ldc_rootpwmoddn (nslcd_cfg E) = Some binddn then None else Some oldpassword)
         newpassword
       \<in> set (snd (try_pwmod E binddn userdn oldpassword newpassword)) \<and>
       fst (try_pwmod E binddn userdn oldpassword newpassword) =
         myldap_passwd E (myldap_set_credentials session0 binddn oldpassword) userdn
           (if ldc_rootpwmoddn (nslcd_cfg E) = Some binddn then None else Some oldpassword)
           newpassword)"
  by (auto simp add: try_pwmod_def Let_def split: prod.splits option.splits if_splits)

theorem try_pwmod_old_secret_witness:
  "Passwd \<lparr>session_binddn = Some ''cn=admin,dc=example,dc=com'', session_bindpw = Some ''guess''\<rparr>
     ''uid=alice,dc=example,dc=com'' None ''newpw''
     \<in> set (snd (try_pwmod example_env ''cn=admin,dc=example,dc=com''
                  ''uid=alice,dc=example,dc=com'' ''guess'' ''newpw''))
 \<and> Passwd \<lparr>session_binddn = Some ''uid=alice,dc=example,dc=com'',
            session_bindpw = Some ''wonderland''\<rparr>
     ''uid=alice,dc=example,dc=com'' (Some ''wonderland'') ''newpw''
     \<in> set (snd (try_pwmod example_env ''uid=alice,dc=example,dc=com''
                  ''uid=alice,dc=example,dc=com'' ''wonderland'' ''newpw''))"
  using try_pwmod_old_secret [of example_env "''cn=admin,dc=example,dc=com''"
      "''uid=alice,dc=example,dc=com''" "''guess''" "''newpw''" example_session "''alice''"]
    try_pwmod_old_secret [of example_env "''uid=alice,dc=example,dc=com''"
      "''uid=alice,dc=example,dc=com''" "''wonderland''" "''newpw''" example_session "''alice''"]
  by (simp add: example_env_fields example_cfg_fields example_session_def example_dn_def
      myldap_set_credentials_def ldap_codes)

lemma validate_user_no_passwd:
  "Passwd s dn old new \<notin> set (snd (validate_user E session userdn userdnsz username usernamesz))"
  by (auto simp add: validate_user_def Let_def split: prod.splits option.splits list.splits)

lemma try_pwmod_passwd_calls:
  assumes "Passwd s dn old new \<in> set (snd (try_pwmod E binddn userdn oldpassword newpassword))"
  shows "dn = userdn \<and> new = newpassword \<and>
         old = (if ldc_rootpwmoddn (nslcd_cfg E) = Some binddn then None else Some oldpassword)"
  using assms
  by (auto simp add: try_pwmod_def Let_def split: prod.splits option.splits if_splits)

text \<open>
  In \<open>nslcd_pam_pwmod\<close>, a request that passes the administrator DN has the password
  modified with no old secret, whatever old secret it carries.
\<close>

lemma pwmod_request_admin:
  assumes admin: "ldc_rootpwmoddn (nslcd_cfg E) = Some userdn"
    and run: "pwmod_request E fp session calleruid username userdn servicename
                oldpassword newpassword = Returns (ret, fp', calls)"
    and call: "Passwd s dn old new \<in> set calls"
  shows "old = None"
proof -
  obtain r vcalls where v: "validate_user E session [] 256 username 256 = (r, vcalls)"
    by (cases "validate_user E session [] 256 username 256")
  have nov: "Passwd s dn old new \<notin> set vcalls"
    using validate_user_no_passwd [of s dn old new E session "[]" 256 username 256] v by simp
  have pw: "old = None" if "try_pwmod E userdn dn' pw newpassword = (rc, cs)"
    "Passwd s dn old new \<in> set cs" for dn' pw rc cs
    using try_pwmod_passwd_calls [of s dn old new E userdn dn' pw newpassword] that admin
    by simp
  from run call nov show ?thesis
    unfolding pwmod_request_def
    by (auto simp add: admin v Let_def dest: pw
        split: prod.splits option.splits if_splits outcome.splits bool.splits)
qed

section \<open>The authorisation search\<close>

text \<open>
  When the search is accepted and no entry comes back, \<open>try_autzsearch\<close> returns the
  code of \<open>myldap_get_entry\<close> as it is.
\<close>

lemma try_autzsearch_passes_code:
  assumes "expr_parse E searchfilter 1024 (autzsearch_var_get dict) = Some filter_buffer"
    and "myldap_search E session (ldc_bases (nslcd_cfg E) 0) LDAP_SCOPE_SUBTREE filter_buffer
           [''dn''] = (Some srch, rc0)"
    and "myldap_get_entry E srch = (None, rc)"
  shows "fst (try_autzsearch E session dict searchfilter) = rc"
  by (simp add: try_autzsearch_def assms)

text \<open>
  C2. The claim asks for a denial when the search matches no entry. In the sample
  deployment the filter of \<open>Bob\<close> is searched and matches nothing, so that
  \<open>myldap_get_entry\<close> returns no entry with \<open>LDAP_SUCCESS\<close>; \<open>try_autzsearch\<close> passes
  that code on, and the search counts as passed.
\<close>

theorem try_autzsearch_zero_matches_succeeds:
  "expr_parse example_env ''(&(objectClass=posixAccount)(uid=$username))'' 1024
     (autzsearch_var_get [''username'' \<mapsto> ''Bob'']) =
     Some ''(&(objectClass=posixAccount)(uid=Bob))''
 \<and> myldap_search example_env example_session (Some ''dc=example,dc=com'') LDAP_SCOPE_SUBTREE
       ''(&(objectClass=posixAccount)(uid=Bob))'' [''dn''] = (Some 21, LDAP_SUCCESS)
 \<and> myldap_get_entry example_env 21 = (None, LDAP_SUCCESS)
 \<and> try_autzsearch example_env example_session [''username'' \<mapsto> ''Bob'']
       ''(&(objectClass=posixAccount)(uid=$username))'' =
     (LDAP_SUCCESS,
      [Search example_session (Some ''dc=example,dc=com'') LDAP_SCOPE_SUBTREE
         ''(&(objectClass=posixAccount)(uid=Bob))'',
       Get_entry 21])"
  by (simp add: try_autzsearch_def autzsearch_var_get_def example_env_fields example_cfg_fields
      example_myldap_search example_expr_parse ldap_codes)

section \<open>The authenticate handler\<close>

lemma frames_append: "frames (xs @ ys) = frames xs @ frames ys"
  by (simp add: frames_def)

lemma READ_STRING_frames:
  assumes "rbuf fp = frames (W_STRING s # xs) @ rest"
    and "length s < buflen" and "buflen \<le> 2147483648" and "CHR 0x00 \<notin> set s"
  shows "READ_STRING fp buflen = Some (s, fp\<lparr>rbuf := frames xs @ rest\<rparr>)"
  using READ_STRING_frame [of fp s "frames xs @ rest" buflen] assms
  by (simp add: frames_Cons)

lemma request_fields_Cons:
  assumes "request_fields fp ((s, buflen) # fs) rest" and "buflen \<le> 2147483648"
  shows "\<exists>fp'. READ_STRING fp buflen = Some (s, fp') \<and> request_fields fp' fs rest \<and>
           wbuf fp' = wbuf fp \<and> wroom fp' = wroom fp \<and> fp'\<lparr>rbuf := rest\<rparr> = fp\<lparr>rbuf := rest\<rparr>"
proof -
  have "READ_STRING fp buflen =
      Some (s, fp\<lparr>rbuf := frames (map (\<lambda>(s, buflen). W_STRING s) fs) @ rest\<rparr>)"
    using assms by (intro READ_STRING_frames) (simp_all add: request_fields_def)
  moreover have "request_fields (fp\<lparr>rbuf := frames (map (\<lambda>(s, buflen). W_STRING s) fs) @ rest\<rparr>) fs rest"
    using assms(1) by (simp add: request_fields_def)
  ultimately show ?thesis by simp
qed

lemma request_fields_Nil: "request_fields fp [] rest \<Longrightarrow> fp\<lparr>rbuf := rest\<rparr> = fp"
  by (simp add: request_fields_def frames_Nil)

lemma nslcd_pam_authc_reads:
  assumes "request_fields fp [(username, 256), (userdn, 256), (servicename, 64), (password, 64)] rest"
  shows "nslcd_pam_authc E fp session calleruid =
    authc_request E (fp\<lparr>rbuf := rest\<rparr>) session calleruid username userdn servicename password"
proof -
  from request_fields_Cons [OF assms] obtain fp1 where
    1: "READ_STRING fp 256 = Some (username, fp1)"
       "request_fields fp1 [(userdn, 256), (servicename, 64), (password, 64)] rest"
       "fp1\<lparr>rbuf := rest\<rparr> = fp\<lparr>rbuf := rest\<rparr>" by auto
  from request_fields_Cons [OF 1(2)] obtain fp2 where
    2: "READ_STRING fp1 256 = Some (userdn, fp2)"
       "request_fields fp2 [(servicename, 64), (password, 64)] rest"
       "fp2\<lparr>rbuf := rest\<rparr> = fp1\<lparr>rbuf := rest\<rparr>" by auto
  from request_fields_Cons [OF 2(2)] obtain fp3 where
    3: "READ_STRING fp2 64 = Some (servicename, fp3)"
       "request_fields fp3 [(password, 64)] rest"
       "fp3\<lparr>rbuf := rest\<rparr> = fp2\<lparr>rbuf := rest\<rparr>" by auto
  from request_fields_Cons [OF 3(2)] obtain fp4 where
    4: "READ_STRING fp3 64 = Some (password, fp4)"
       "request_fields fp4 [] rest"
       "fp4\<lparr>rbuf := rest\<rparr> = fp3\<lparr>rbuf := rest\<rparr>" by auto
  have "fp4 = fp\<lparr>rbuf := rest\<rparr>"
    using request_fields_Nil [OF 4(2)] 1(3) 2(3) 3(3) 4(3) by simp
  then show ?thesis
    by (simp add: nslcd_pam_authc_def 1(1) 2(1) 3(1) 4(1))
qed

lemma authc_try_authentication_writes:
  assumes "wroom fp = None"
  shows "authc_try_authentication E fp calls username userdn password =
    Returns (0, fp\<lparr>wbuf := wbuf fp @ frames
               [W_INT32 (NSLCD_RESULT_BEGIN E), W_STRING username, W_STRING userdn,
                W_INT32 (if fst (try_bind E userdn password) = LDAP_SUCCESS
                         then NSLCD_PAM_SUCCESS E else NSLCD_PAM_AUTH_ERR E),
                W_INT32 (NSLCD_PAM_SUCCESS E), W_STRING [], W_INT32 (NSLCD_RESULT_END E)]\<rparr>,
             calls @ snd (try_bind E userdn password))"
  by (simp add: authc_try_authentication_def WRITE_seq_frames [OF assms] split: prod.splits)

lemma authc_validate_as_usual_writes:
  assumes "wroom fp = None"
    and "validate_user E session userdn 256 username 256 = (Returns (rc, dn', un'), calls)"
  shows "authc_validate_as_usual E fp session username userdn password =
    (if rc = LDAP_SUCCESS then authc_try_authentication E fp calls un' dn' password
     else if rc = LDAP_NO_SUCH_OBJECT
       then Returns (- 1, fp\<lparr>wbuf := wbuf fp @ frames [W_INT32 (NSLCD_RESULT_END E)]\<rparr>, calls)
       else Returns (- 1, fp\<lparr>wbuf := wbuf fp @ frames
               [W_INT32 (NSLCD_RESULT_BEGIN E), W_STRING un', W_STRING [],
                W_INT32 (NSLCD_PAM_AUTHINFO_UNAVAIL E), W_INT32 (NSLCD_PAM_SUCCESS E),
                W_STRING ''LDAP server unavaiable'', W_INT32 (NSLCD_RESULT_END E)]\<rparr>, calls))"
  using assms(1)
  by (simp add: authc_validate_as_usual_def assms(2) WRITE_seq_frames WRITE_INT32_frame
      frames_Cons frames_Nil)

lemma authc_request_header:
  assumes "wroom fp = None"
  shows "authc_request E fp session calleruid username userdn servicename password =
    (let fp' = fp\<lparr>wbuf := wbuf fp @ frames [W_INT32 (NSLCD_VERSION E),
                                             W_INT32 (NSLCD_ACTION_PAM_AUTHC E)]\<rparr> in
     if c_at username 0 = CHR 0x00 \<and> ldc_rootpwmoddn (nslcd_cfg E) \<noteq> None then
       (if length (the (ldc_rootpwmoddn (nslcd_cfg E))) \<ge> 256 then Returns (- 1, fp', [])
        else if c_at password 0 = CHR 0x00 \<and> calleruid = 0 \<and>
                ldc_rootpwmodpw (nslcd_cfg E) \<noteq> None
        then (if length (the (ldc_rootpwmodpw (nslcd_cfg E))) \<ge> 64 then Returns (- 1, fp', [])
              else authc_try_authentication E fp' [] username
                     (the (ldc_rootpwmoddn (nslcd_cfg E))) (the (ldc_rootpwmodpw (nslcd_cfg E))))
        else authc_try_authentication E fp' [] username
               (the (ldc_rootpwmoddn (nslcd_cfg E))) password)
     else authc_validate_as_usual E fp' session username userdn password)"
  by (simp add: authc_request_def WRITE_seq_frames [OF assms] Let_def split del: if_split
      cong: if_cong)


lemma request_fields_c_at:
  assumes "request_fields fp fs rest" and "(s, n) \<in> set fs"
  shows "c_at s 0 = CHR 0x00 \<longleftrightarrow> s = []"
proof -
  have "CHR 0x00 \<notin> set s"
    using assms by (auto simp add: request_fields_def list_all_iff)
  from c_at_nul_iff [OF this, of 0] show ?thesis by simp
qed

lemma authc_normal_path:
  assumes req: "request_fields fp [(username, 256), (userdn, 256), (servicename, 64), (password, 64)] rest"
    and room: "wroom fp = None"
    and normal: "username \<noteq> [] \<or> ldc_rootpwmoddn (nslcd_cfg E) = None"
  shows "nslcd_pam_authc E fp session calleruid =
    authc_validate_as_usual E
      (fp\<lparr>rbuf := rest, wbuf := wbuf fp @ frames [W_INT32 (NSLCD_VERSION E),
                                                   W_INT32 (NSLCD_ACTION_PAM_AUTHC E)]\<rparr>)
      session username userdn password"
proof -
  have "c_at username 0 = CHR 0x00 \<longleftrightarrow> username = []"
    by (rule request_fields_c_at [OF req, of _ 256]) simp
  with normal have nb: "\<not> (c_at username 0 = CHR 0x00 \<and> ldc_rootpwmoddn (nslcd_cfg E) \<noteq> None)"
    by auto
  have room': "wroom (fp\<lparr>rbuf := rest\<rparr>) = None" using room by simp
  have "nslcd_pam_authc E fp session calleruid =
      authc_validate_as_usual E
        (fp\<lparr>rbuf := rest\<rparr>\<lparr>wbuf := wbuf (fp\<lparr>rbuf := rest\<rparr>) @
            frames [W_INT32 (NSLCD_VERSION E), W_INT32 (NSLCD_ACTION_PAM_AUTHC E)]\<rparr>)
        session username userdn password"
    unfolding nslcd_pam_authc_reads [OF req] authc_request_header [OF room'] Let_def
    by (simp only: nb if_False)
  then show ?thesis by simp
qed

lemma authc_bypass_path:
  assumes req: "request_fields fp [(username, 256), (userdn, 256), (servicename, 64), (password, 64)] rest"
    and room: "wroom fp = None"
    and bypass: "username = []" "ldc_rootpwmoddn (nslcd_cfg E) = Some rootpwmoddn"
  shows "nslcd_pam_authc E fp session calleruid =
    (let fp' = fp\<lparr>rbuf := rest, wbuf := wbuf fp @ frames [W_INT32 (NSLCD_VERSION E),
                                                   W_INT32 (NSLCD_ACTION_PAM_AUTHC E)]\<rparr> in
     if length rootpwmoddn \<ge> 256 then Returns (- 1, fp', [])
     else if password = [] \<and> calleruid = 0 \<and> ldc_rootpwmodpw (nslcd_cfg E) \<noteq> None
     then (if length (the (ldc_rootpwmodpw (nslcd_cfg E))) \<ge> 64 then Returns (- 1, fp', [])
           else authc_try_authentication E fp' [] [] rootpwmoddn
                  (the (ldc_rootpwmodpw (nslcd_cfg E))))
     else authc_try_authentication E fp' [] [] rootpwmoddn password)"
proof -
  have "c_at password 0 = CHR 0x00 \<longleftrightarrow> password = []"
    by (rule request_fields_c_at [OF req, of _ 64]) simp
  moreover have room': "wroom (fp\<lparr>rbuf := rest\<rparr>) = None" using room by simp
  ultimately show ?thesis
    unfolding nslcd_pam_authc_reads [OF req] authc_request_header [OF room']
    by (simp add: Let_def bypass c_at_0_empty split del: if_split cong: if_cong)
qed

text \<open>
  C6. For an authenticate request that is resolved as usual (its username is not empty,
  or no administrator DN is configured), on a stream that accepts the response:
  if \<open>validate_user\<close> fails with \<open>LDAP_NO_SUCH_OBJECT\<close>, the response is the version,
  the action and the end marker, with no result record; if it fails with any other code,
  the response holds one result record, with the status \<open>NSLCD_PAM_AUTHINFO_UNAVAIL\<close>,
  before the end marker; and if it succeeds and the bind is rejected with
  \<open>LDAP_INVALID_CREDENTIALS\<close>, the response holds one result record, with the status
  \<open>NSLCD_PAM_AUTH_ERR\<close>, before the end marker.
\<close>

theorem authc_failure_responses:
  assumes "request_fields fp [(username, 256), (userdn, 256), (servicename, 64), (password, 64)] rest"
    and "wroom fp = None"
    and "username \<noteq> [] \<or> ldc_rootpwmoddn (nslcd_cfg E) = None"
  shows
   "(validate_user E session userdn 256 username 256 =
       (Returns (LDAP_NO_SUCH_OBJECT, dn', un'), calls) \<longrightarrow>
     nslcd_pam_authc E fp session calleruid =
       Returns (- 1,
         fp\<lparr>rbuf := rest,
            wbuf := wbuf fp @ frames
              [W_INT32 (NSLCD_VERSION E), W_INT32 (NSLCD_ACTION_PAM_AUTHC E),
               W_INT32 (NSLCD_RESULT_END E)]\<rparr>,
         calls))
  \<and> (validate_user E session userdn 256 username 256 = (Returns (rc, dn', un'), calls) \<and>
     rc \<noteq> LDAP_SUCCESS \<and> rc \<noteq> LDAP_NO_SUCH_OBJECT \<longrightarrow>
     nslcd_pam_authc E fp session calleruid =
       Returns (- 1,
         fp\<lparr>rbuf := rest,
            wbuf := wbuf fp @ frames
              [W_INT32 (NSLCD_VERSION E), W_INT32 (NSLCD_ACTION_PAM_AUTHC E),
               W_INT32 (NSLCD_RESULT_BEGIN E), W_STRING un', W_STRING [],
               W_INT32 (NSLCD_PAM_AUTHINFO_UNAVAIL E), W_INT32 (NSLCD_PAM_SUCCESS E),
               W_STRING ''LDAP server unavaiable'', W_INT32 (NSLCD_RESULT_END E)]\<rparr>,
         calls))
  \<and> (validate_user E session userdn 256 username 256 =
       (Returns (LDAP_SUCCESS, dn', un'), calls) \<and>
     fst (try_bind E dn' password) = LDAP_INVALID_CREDENTIALS \<longrightarrow>
     nslcd_pam_authc E fp session calleruid =
       Returns (0,
         fp\<lparr>rbuf := rest,
            wbuf := wbuf fp @ frames
              [W_INT32 (NSLCD_VERSION E), W_INT32 (NSLCD_ACTION_PAM_AUTHC E),
               W_INT32 (NSLCD_RESULT_BEGIN E), W_STRING un', W_STRING dn',
               W_INT32 (NSLCD_PAM_AUTH_ERR E), W_INT32 (NSLCD_PAM_SUCCESS E),
               W_STRING [], W_INT32 (NSLCD_RESULT_END E)]\<rparr>,
         calls @ snd (try_bind E dn' password)))"
proof -
  let ?fp = "fp\<lparr>rbuf := rest, wbuf := wbuf fp @ frames [W_INT32 (NSLCD_VERSION E),
                                                   W_INT32 (NSLCD_ACTION_PAM_AUTHC E)]\<rparr>"
  have room: "wroom ?fp = None" using assms(2) by simp
  have codes: "LDAP_INVALID_CREDENTIALS \<noteq> LDAP_SUCCESS" "LDAP_NO_SUCH_OBJECT \<noteq> LDAP_SUCCESS"
    by (simp_all add: ldap_codes)
  have "nslcd_pam_authc E fp session calleruid =
      Returns (- 1, ?fp\<lparr>wbuf := wbuf ?fp @ frames [W_INT32 (NSLCD_RESULT_END E)]\<rparr>, calls)"
    if "validate_user E session userdn 256 username 256 =
       (Returns (LDAP_NO_SUCH_OBJECT, dn', un'), calls)"
    unfolding authc_normal_path [OF assms] authc_validate_as_usual_writes [OF room that]
    using codes by simp
  moreover have "nslcd_pam_authc E fp session calleruid =
      Returns (- 1, ?fp\<lparr>wbuf := wbuf ?fp @ frames
               [W_INT32 (NSLCD_RESULT_BEGIN E), W_STRING un', W_STRING [],
                W_INT32 (NSLCD_PAM_AUTHINFO_UNAVAIL E), W_INT32 (NSLCD_PAM_SUCCESS E),
                W_STRING ''LDAP server unavaiable'', W_INT32 (NSLCD_RESULT_END E)]\<rparr>, calls)"
    if "validate_user E session userdn 256 username 256 = (Returns (rc, dn', un'), calls)"
      and "rc \<noteq> LDAP_SUCCESS" "rc \<noteq> LDAP_NO_SUCH_OBJECT"
    unfolding authc_normal_path [OF assms] authc_validate_as_usual_writes [OF room that(1)]
    using that(2,3) by simp
  moreover have "nslcd_pam_authc E fp session calleruid =
      Returns (0, ?fp\<lparr>wbuf := wbuf ?fp @ frames
               [W_INT32 (NSLCD_RESULT_BEGIN E), W_STRING un', W_STRING dn',
                W_INT32 (NSLCD_PAM_AUTH_ERR E), W_INT32 (NSLCD_PAM_SUCCESS E), W_STRING [],
                W_INT32 (NSLCD_RESULT_END E)]\<rparr>, calls @ snd (try_bind E dn' password))"
    if "validate_user E session userdn 256 username 256 =
       (Returns (LDAP_SUCCESS, dn', un'), calls)"
      and "fst (try_bind E dn' password) = LDAP_INVALID_CREDENTIALS"
    unfolding authc_normal_path [OF assms] authc_validate_as_usual_writes [OF room that(1)]
      authc_try_authentication_writes [OF room]
    using codes that(2) by simp
  ultimately show ?thesis
    by (simp add: frames_Cons frames_Nil)
qed


lemma example_validate_user:
  "validate_user example_env example_session [] 256 ''carol'' 256 =
     (Returns (LDAP_NO_SUCH_OBJECT, [], ''carol''), [Uid2entry example_session ''carol''])"
  "validate_user example_env example_session [] 256 ''nouid'' 256 =
     (Returns (LDAP_INVALID_SYNTAX, ''cn=nouid,dc=example,dc=com'', ''nouid''),
      [Uid2entry example_session ''nouid''])"
  "validate_user example_env example_session [] 256 ''alice'' 256 =
     (Returns (LDAP_SUCCESS, ''uid=alice,dc=example,dc=com'', ''alice''),
      [Uid2entry example_session ''alice''])"
  "validate_user example_env example_session [] 256 ''bob'' 256 =
     (Returns (LDAP_SUCCESS, ''uid=Bob,dc=example,dc=com'', ''Bob''),
      [Uid2entry example_session ''bob''])"
  "validate_user example_env example_session [] 256 [] 256 =
     (Returns (LDAP_NO_SUCH_OBJECT, [], []), [])"
  by (simp_all add: validate_user_def example_names example_env_fields example_dn_def c_at_def
      tolower_def less_eq_char_def ldap_codes)

lemma example_try_bind:
  "try_bind example_env ''uid=alice,dc=example,dc=com'' ''wrong'' =
     (LDAP_INVALID_CREDENTIALS,
      [Create_session, Set_credentials ''uid=alice,dc=example,dc=com'' ''wrong'',
       Search \<lparr>session_binddn = Some ''uid=alice,dc=example,dc=com'',
                session_bindpw = Some ''wrong''\<rparr>
         (Some ''uid=alice,dc=example,dc=com'') LDAP_SCOPE_BASE ''(objectClass=*)'',
       Session_close \<lparr>session_binddn = Some ''uid=alice,dc=example,dc=com'',
                       session_bindpw = Some ''wrong''\<rparr>])"
  "try_bind example_env ''cn=admin,dc=example,dc=com'' ''guess'' =
     (LDAP_INVALID_CREDENTIALS,
      [Create_session, Set_credentials ''cn=admin,dc=example,dc=com'' ''guess'',
       Search \<lparr>session_binddn = Some ''cn=admin,dc=example,dc=com'',
                session_bindpw = Some ''guess''\<rparr>
         (Some ''cn=admin,dc=example,dc=com'') LDAP_SCOPE_BASE ''(objectClass=*)'',
       Session_close \<lparr>session_binddn = Some ''cn=admin,dc=example,dc=com'',
                       session_bindpw = Some ''guess''\<rparr>])"
  "try_bind example_env ''cn=admin,dc=example,dc=com'' ''adminsecret'' =
     (LDAP_SUCCESS,
      [Create_session, Set_credentials ''cn=admin,dc=example,dc=com'' ''adminsecret'',
       Search \<lparr>session_binddn = Some ''cn=admin,dc=example,dc=com'',
                session_bindpw = Some ''adminsecret''\<rparr>
         (Some ''cn=admin,dc=example,dc=com'') LDAP_SCOPE_BASE ''(objectClass=*)'',
       Get_entry 10,
       Session_close \<lparr>session_binddn = Some ''cn=admin,dc=example,dc=com'',
                       session_bindpw = Some ''adminsecret''\<rparr>])"
  by (simp_all add: try_bind_def example_env_fields example_myldap_search example_dn_def
      myldap_set_credentials_def ldap_codes Let_def)

lemma example_request:
  "request_fields (request_stream [a, b, c, d]) [(a, na), (b, nb), (c, nc), (d, nd)] [] \<longleftrightarrow>
     (length a < na \<and> CHR 0x00 \<notin> set a) \<and> (length b < nb \<and> CHR 0x00 \<notin> set b) \<and>
     (length c < nc \<and> CHR 0x00 \<notin> set c) \<and> (length d < nd \<and> CHR 0x00 \<notin> set d)"
  "wroom (request_stream xs) = None"
  "wbuf (request_stream xs) = []"
  "(request_stream xs)\<lparr>rbuf := r, wbuf := w\<rparr> = \<lparr>rbuf = r, wbuf = w, wroom = None\<rparr>"
  by (simp_all add: request_fields_def request_stream_def)

theorem authc_failure_responses_witness:
  "nslcd_pam_authc example_env (request_stream [''carol'', [], ''sshd'', ''pw'']) example_session 1000 =
     Returns (- 1,
       \<lparr>rbuf = [], wbuf = frames [W_INT32 1, W_INT32 20001, W_INT32 3], wroom = None\<rparr>,
       [Uid2entry example_session ''carol''])
 \<and> nslcd_pam_authc example_env (request_stream [''nouid'', [], ''sshd'', ''pw'']) example_session 1000 =
     Returns (- 1,
       \<lparr>rbuf = [],
        wbuf = frames [W_INT32 1, W_INT32 20001, W_INT32 0, W_STRING ''nouid'', W_STRING [],
                       W_INT32 9, W_INT32 0, W_STRING ''LDAP server unavaiable'', W_INT32 3],
        wroom = None\<rparr>,
       [Uid2entry example_session ''nouid''])
 \<and> nslcd_pam_authc example_env (request_stream [''alice'', [], ''sshd'', ''wrong'']) example_session 1000 =
     Returns (0,
       \<lparr>rbuf = [],
        wbuf = frames [W_INT32 1, W_INT32 20001, W_INT32 0, W_STRING ''alice'',
                       W_STRING ''uid=alice,dc=example,dc=com'', W_INT32 7, W_INT32 0,
                       W_STRING [], W_INT32 3],
        wroom = None\<rparr>,
       [Uid2entry example_session ''alice'', Create_session,
        Set_credentials ''uid=alice,dc=example,dc=com'' ''wrong'',
        Search \<lparr>session_binddn = Some ''uid=alice,dc=example,dc=com'',
                 session_bindpw = Some ''wrong''\<rparr>
          (Some ''uid=alice,dc=example,dc=com'') LDAP_SCOPE_BASE ''(objectClass=*)'',
        Session_close \<lparr>session_binddn = Some ''uid=alice,dc=example,dc=com'',
                        session_bindpw = Some ''wrong''\<rparr>])"
  using authc_failure_responses [where fp = "request_stream [''carol'', [], ''sshd'', ''pw'']"
      and username = "''carol''" and userdn = "[]" and servicename = "''sshd''"
      and password = "''pw''" and rest = "[]" and E = example_env and session = example_session
      and dn' = "[]" and un' = "''carol''" and calls = "[Uid2entry example_session ''carol'']"
      and calleruid = 1000]
    authc_failure_responses [where fp = "request_stream [''nouid'', [], ''sshd'', ''pw'']"
      and username = "''nouid''" and userdn = "[]" and servicename = "''sshd''"
      and password = "''pw''" and rest = "[]" and E = example_env and session = example_session
      and dn' = "''cn=nouid,dc=example,dc=com''" and un' = "''nouid''"
      and calls = "[Uid2entry example_session ''nouid'']" and rc = LDAP_INVALID_SYNTAX
      and calleruid = 1000]
    authc_failure_responses [where fp = "request_stream [''alice'', [], ''sshd'', ''wrong'']"
      and username = "''alice''" and userdn = "[]" and servicename = "''sshd''"
      and password = "''wrong''" and rest = "[]" and E = example_env and session = example_session
      and dn' = "''uid=alice,dc=example,dc=com''" and un' = "''alice''"
      and calls = "[Uid2entry example_session ''alice'']" and calleruid = 1000]
  by (simp add: example_request example_validate_user example_try_bind example_env_fields
      ldap_codes)


text \<open>
  C1, as amended. The authenticate handler takes the administrative branch exactly when
  the request's username is empty and an administrator DN is configured. In that
  branch no user is resolved: when the administrator DN fits the DN buffer the handler
  binds as the administrator DN and answers with one record carrying it; the bind uses
  the configured administrator secret exactly when, in addition, the request's secret
  is empty, the caller's uid is 0 and an administrator secret is configured (and fits
  the secret buffer), and the request's own secret otherwise. A configured value that
  does not fit its buffer ends the request after the response header. With a username
  that is not empty, or no administrator DN configured, the handler resolves the user
  as usual.
\<close>

theorem authc_admin_bypass:
  assumes "request_fields fp [(username, 256), (userdn, 256), (servicename, 64), (password, 64)] rest"
    and "wroom fp = None"
  shows
   "(username = [] \<and> ldc_rootpwmoddn (nslcd_cfg E) = Some rootpwmoddn \<and>
     length rootpwmoddn < 256 \<and>
     \<not> (password = [] \<and> calleruid = 0 \<and> ldc_rootpwmodpw (nslcd_cfg E) \<noteq> None) \<longrightarrow>
     nslcd_pam_authc E fp session calleruid =
       Returns (0,
         fp\<lparr>rbuf := rest,
            wbuf := wbuf fp @ frames
              [W_INT32 (NSLCD_VERSION E), W_INT32 (NSLCD_ACTION_PAM_AUTHC E),
               W_INT32 (NSLCD_RESULT_BEGIN E), W_STRING [], W_STRING rootpwmoddn,
               W_INT32 (if fst (try_bind E rootpwmoddn password) = LDAP_SUCCESS
                        then NSLCD_PAM_SUCCESS E else NSLCD_PAM_AUTH_ERR E),
               W_INT32 (NSLCD_PAM_SUCCESS E), W_STRING [], W_INT32 (NSLCD_RESULT_END E)]\<rparr>,
         snd (try_bind E rootpwmoddn password)))
  \<and> (username = [] \<and> ldc_rootpwmoddn (nslcd_cfg E) = Some rootpwmoddn \<and>
     length rootpwmoddn < 256 \<and>
     password = [] \<and> calleruid = 0 \<and> ldc_rootpwmodpw (nslcd_cfg E) = Some rootpwmodpw \<and>
     length rootpwmodpw < 64 \<longrightarrow>
     nslcd_pam_authc E fp session calleruid =
       Returns (0,
         fp\<lparr>rbuf := rest,
            wbuf := wbuf fp @ frames
              [W_INT32 (NSLCD_VERSION E), W_INT32 (NSLCD_ACTION_PAM_AUTHC E),
               W_INT32 (NSLCD_RESULT_BEGIN E), W_STRING [], W_STRING rootpwmoddn,
               W_INT32 (if fst (try_bind E rootpwmoddn rootpwmodpw) = LDAP_SUCCESS
                        then NSLCD_PAM_SUCCESS E else NSLCD_PAM_AUTH_ERR E),
               W_INT32 (NSLCD_PAM_SUCCESS E), W_STRING [], W_INT32 (NSLCD_RESULT_END E)]\<rparr>,
         snd (try_bind E rootpwmoddn rootpwmodpw)))
  \<and> (username = [] \<and> ldc_rootpwmoddn (nslcd_cfg E) = Some rootpwmoddn \<and>
     (256 \<le> length rootpwmoddn \<or>
      password = [] \<and> calleruid = 0 \<and> ldc_rootpwmodpw (nslcd_cfg E) = Some rootpwmodpw \<and>
      64 \<le> length rootpwmodpw) \<longrightarrow>
     nslcd_pam_authc E fp session calleruid =
       Returns (- 1,
         fp\<lparr>rbuf := rest,
            wbuf := wbuf fp @ frames
              [W_INT32 (NSLCD_VERSION E), W_INT32 (NSLCD_ACTION_PAM_AUTHC E)]\<rparr>,
         []))
  \<and> (username \<noteq> [] \<or> ldc_rootpwmoddn (nslcd_cfg E) = None \<longrightarrow>
     nslcd_pam_authc E fp session calleruid =
       authc_validate_as_usual E
         (fp\<lparr>rbuf := rest,
            wbuf := wbuf fp @ frames
              [W_INT32 (NSLCD_VERSION E), W_INT32 (NSLCD_ACTION_PAM_AUTHC E)]\<rparr>)
         session username userdn password)"
proof -
  let ?fp = "fp\<lparr>rbuf := rest, wbuf := wbuf fp @ frames [W_INT32 (NSLCD_VERSION E),
                                                   W_INT32 (NSLCD_ACTION_PAM_AUTHC E)]\<rparr>"
  have room: "wroom ?fp = None" using assms(2) by simp
  have flat: "?fp\<lparr>wbuf := wbuf ?fp @ frames xs\<rparr> =
      fp\<lparr>rbuf := rest, wbuf := wbuf fp @ frames
        ([W_INT32 (NSLCD_VERSION E), W_INT32 (NSLCD_ACTION_PAM_AUTHC E)] @ xs)\<rparr>" for xs
    by (simp add: frames_append del: append.simps)
  have own: "nslcd_pam_authc E fp session calleruid =
      authc_try_authentication E ?fp [] [] rootpwmoddn password"
    if "username = []" "ldc_rootpwmoddn (nslcd_cfg E) = Some rootpwmoddn"
      "length rootpwmoddn < 256"
      "\<not> (password = [] \<and> calleruid = 0 \<and> ldc_rootpwmodpw (nslcd_cfg E) \<noteq> None)"
  proof -
    have fits: "\<not> 256 \<le> length rootpwmoddn" using that(3) by simp
    show ?thesis
      unfolding authc_bypass_path [OF assms that(1,2)] Let_def
      by (simp only: fits that(4) if_False)
  qed
  have subst: "nslcd_pam_authc E fp session calleruid =
      authc_try_authentication E ?fp [] [] rootpwmoddn rootpwmodpw"
    if "username = []" "ldc_rootpwmoddn (nslcd_cfg E) = Some rootpwmoddn"
      "length rootpwmoddn < 256" "password = []" "calleruid = 0"
      "ldc_rootpwmodpw (nslcd_cfg E) = Some rootpwmodpw" "length rootpwmodpw < 64"
    unfolding authc_bypass_path [OF assms that(1,2)] Let_def
    using that(3-7) by simp
  have abort: "nslcd_pam_authc E fp session calleruid = Returns (- 1, ?fp, [])"
    if "username = []" "ldc_rootpwmoddn (nslcd_cfg E) = Some rootpwmoddn"
      "256 \<le> length rootpwmoddn \<or>
       password = [] \<and> calleruid = 0 \<and> ldc_rootpwmodpw (nslcd_cfg E) = Some rootpwmodpw \<and>
       64 \<le> length rootpwmodpw"
    unfolding authc_bypass_path [OF assms that(1,2)] Let_def
    using that(3) by auto
  show ?thesis
    using own subst abort authc_normal_path [OF assms, of E session calleruid]
    unfolding authc_try_authentication_writes [OF room] flat
    by simp
qed

text \<open>
  The claim as stated fails on a request with an empty username and a secret that is
  not empty, an administrator DN being configured: the handler does not fall through to
  the usual resolution, which would answer with no record, but binds as the
  administrator with the request's secret.
\<close>

theorem authc_nonempty_secret_counterexample:
  "ldc_rootpwmoddn (nslcd_cfg example_env) = Some ''cn=admin,dc=example,dc=com''
 \<and> ldc_rootpwmodpw (nslcd_cfg example_env) = Some ''adminsecret''
 \<and> nslcd_pam_authc example_env (request_stream [[], [], ''sshd'', ''guess'']) example_session 0 =
     Returns (0,
       \<lparr>rbuf = [],
        wbuf = frames [W_INT32 1, W_INT32 20001, W_INT32 0, W_STRING [],
                       W_STRING ''cn=admin,dc=example,dc=com'', W_INT32 7, W_INT32 0,
                       W_STRING [], W_INT32 3],
        wroom = None\<rparr>,
       [Create_session, Set_credentials ''cn=admin,dc=example,dc=com'' ''guess'',
        Search \<lparr>session_binddn = Some ''cn=admin,dc=example,dc=com'',
                 session_bindpw = Some ''guess''\<rparr>
          (Some ''cn=admin,dc=example,dc=com'') LDAP_SCOPE_BASE ''(objectClass=*)'',
        Session_close \<lparr>session_binddn = Some ''cn=admin,dc=example,dc=com'',
                        session_bindpw = Some ''guess''\<rparr>])
 \<and> authc_validate_as_usual example_env
       \<lparr>rbuf = [], wbuf = frames [W_INT32 1, W_INT32 20001], wroom = None\<rparr>
       example_session [] [] ''guess'' =
     Returns (- 1,
       \<lparr>rbuf = [], wbuf = frames [W_INT32 1, W_INT32 20001, W_INT32 3], wroom = None\<rparr>, [])
 \<and> nslcd_pam_authc example_env (request_stream [[], [], ''sshd'', ''guess'']) example_session 0 \<noteq>
     authc_validate_as_usual example_env
       \<lparr>rbuf = [], wbuf = frames [W_INT32 1, W_INT32 20001], wroom = None\<rparr>
       example_session [] [] ''guess''"
proof -
  have req: "request_fields (request_stream [[], [], ''sshd'', ''guess''])
      [([], 256), ([], 256), (''sshd'', 64), (''guess'', 64)] []"
    by (simp add: example_request)
  have room: "wroom (request_stream [[], [], ''sshd'', ''guess'']) = None"
    by (simp add: example_request)
  have room': "wroom \<lparr>rbuf = [], wbuf = frames [W_INT32 1, W_INT32 20001], wroom = None\<rparr> = None"
    by simp
  show ?thesis
    unfolding authc_validate_as_usual_writes [OF room' example_validate_user(5)]
    by (simp add: authc_bypass_path [OF req room, of example_env "''cn=admin,dc=example,dc=com''"]
        authc_try_authentication_writes example_request example_try_bind example_env_fields
        example_cfg_fields ldap_codes frames_Cons frames_Nil)
qed


theorem authc_admin_bypass_witness:
  "nslcd_pam_authc example_env (request_stream [[], [], ''sshd'', ''guess'']) example_session 0 =
     Returns (0,
       \<lparr>rbuf = [],
        wbuf = frames [W_INT32 1, W_INT32 20001, W_INT32 0, W_STRING [],
                       W_STRING ''cn=admin,dc=example,dc=com'', W_INT32 7, W_INT32 0,
                       W_STRING [], W_INT32 3],
        wroom = None\<rparr>,
       snd (try_bind example_env ''cn=admin,dc=example,dc=com'' ''guess''))
 \<and> nslcd_pam_authc example_env (request_stream [[], [], ''sshd'', []]) example_session 0 =
     Returns (0,
       \<lparr>rbuf = [],
        wbuf = frames [W_INT32 1, W_INT32 20001, W_INT32 0, W_STRING [],
                       W_STRING ''cn=admin,dc=example,dc=com'', W_INT32 0, W_INT32 0,
                       W_STRING [], W_INT32 3],
        wroom = None\<rparr>,
       snd (try_bind example_env ''cn=admin,dc=example,dc=com'' ''adminsecret''))
 \<and> nslcd_pam_authc
       (example_env\<lparr>nslcd_cfg := example_cfg\<lparr>ldc_rootpwmoddn := Some (replicate 256 (CHR ''x''))\<rparr>\<rparr>)
       (request_stream [[], [], ''sshd'', []]) example_session 0 =
     Returns (- 1, \<lparr>rbuf = [], wbuf = frames [W_INT32 1, W_INT32 20001], wroom = None\<rparr>, [])
 \<and> nslcd_pam_authc example_env (request_stream [''carol'', [], ''sshd'', []]) example_session 0 =
     Returns (- 1,
       \<lparr>rbuf = [], wbuf = frames [W_INT32 1, W_INT32 20001, W_INT32 3], wroom = None\<rparr>,
       [Uid2entry example_session ''carol''])"
proof -
  have room: "wroom \<lparr>rbuf = [], wbuf = frames [W_INT32 1, W_INT32 20001], wroom = None\<rparr> = None"
    by simp
  have usual: "authc_validate_as_usual example_env
      \<lparr>rbuf = [], wbuf = frames [W_INT32 1, W_INT32 20001], wroom = None\<rparr>
      example_session ''carol'' [] [] =
    Returns (- 1,
      \<lparr>rbuf = [], wbuf = frames [W_INT32 1, W_INT32 20001, W_INT32 3], wroom = None\<rparr>,
      [Uid2entry example_session ''carol''])"
    unfolding authc_validate_as_usual_writes [OF room example_validate_user(1)]
    by (simp add: ldap_codes frames_Cons frames_Nil example_env_fields)
  show ?thesis
    using authc_admin_bypass [where fp = "request_stream [[], [], ''sshd'', ''guess'']"
        and username = "[]" and userdn = "[]" and servicename = "''sshd''"
        and password = "''guess''" and rest = "[]" and E = example_env
        and session = example_session and calleruid = 0
        and rootpwmoddn = "''cn=admin,dc=example,dc=com''"]
      authc_admin_bypass [where fp = "request_stream [[], [], ''sshd'', []]"
        and username = "[]" and userdn = "[]" and servicename = "''sshd''"
        and password = "[]" and rest = "[]" and E = example_env
        and session = example_session and calleruid = 0
        and rootpwmoddn = "''cn=admin,dc=example,dc=com''" and rootpwmodpw = "''adminsecret''"]
      authc_admin_bypass [where fp = "request_stream [[], [], ''sshd'', []]"
        and username = "[]" and userdn = "[]" and servicename = "''sshd''"
        and password = "[]" and rest = "[]"
        and E = "example_env\<lparr>nslcd_cfg := example_cfg\<lparr>ldc_rootpwmoddn :=
                   Some (replicate 256 (CHR ''x''))\<rparr>\<rparr>"
        and session = example_session and calleruid = 0
        and rootpwmoddn = "replicate 256 (CHR ''x'')"]
      authc_admin_bypass [where fp = "request_stream [''carol'', [], ''sshd'', []]"
        and username = "''carol''" and userdn = "[]" and servicename = "''sshd''"
        and password = "[]" and rest = "[]" and E = example_env
        and session = example_session and calleruid = 0]
    by (simp add: usual example_request example_try_bind example_env_fields example_cfg_fields
        ldap_codes)
qed

section \<open>The authorize handler\<close>

lemma nslcd_pam_authz_reads:
  assumes "request_fields fp [(username, 256), (userdn, 256), (servicename, 64), (ruser, 256),
             (rhost, HOST_NAME_MAX E + 1), (tty, 64)] rest"
    and "HOST_NAME_MAX E < 2147483648"
  shows "nslcd_pam_authz E fp session fqdn =
    authz_request E (fp\<lparr>rbuf := rest\<rparr>) session fqdn username userdn servicename ruser rhost tty"
proof -
  from request_fields_Cons [OF assms(1)] obtain fp1 where
    1: "READ_STRING fp 256 = Some (username, fp1)"
       "request_fields fp1 [(userdn, 256), (servicename, 64), (ruser, 256),
             (rhost, HOST_NAME_MAX E + 1), (tty, 64)] rest"
       "fp1\<lparr>rbuf := rest\<rparr> = fp\<lparr>rbuf := rest\<rparr>" by auto
  from request_fields_Cons [OF 1(2)] obtain fp2 where
    2: "READ_STRING fp1 256 = Some (userdn, fp2)"
       "request_fields fp2 [(servicename, 64), (ruser, 256),
             (rhost, HOST_NAME_MAX E + 1), (tty, 64)] rest"
       "fp2\<lparr>rbuf := rest\<rparr> = fp1\<lparr>rbuf := rest\<rparr>" by auto
  from request_fields_Cons [OF 2(2)] obtain fp3 where
    3: "READ_STRING fp2 64 = Some (servicename, fp3)"
       "request_fields fp3 [(ruser, 256), (rhost, HOST_NAME_MAX E + 1), (tty, 64)] rest"
       "fp3\<lparr>rbuf := rest\<rparr> = fp2\<lparr>rbuf := rest\<rparr>" by auto
  from request_fields_Cons [OF 3(2)] obtain fp4 where
    4: "READ_STRING fp3 256 = Some (ruser, fp4)"
       "request_fields fp4 [(rhost, HOST_NAME_MAX E + 1), (tty, 64)] rest"
       "fp4\<lparr>rbuf := rest\<rparr> = fp3\<lparr>rbuf := rest\<rparr>" by auto
  have "HOST_NAME_MAX E + 1 \<le> 2147483648" using assms(2) by simp
  from request_fields_Cons [OF 4(2) this] obtain fp5 where
    5: "READ_STRING fp4 (HOST_NAME_MAX E + 1) = Some (rhost, fp5)"
       "request_fields fp5 [(tty, 64)] rest"
       "fp5\<lparr>rbuf := rest\<rparr> = fp4\<lparr>rbuf := rest\<rparr>" by auto
  from request_fields_Cons [OF 5(2)] obtain fp6 where
    6: "READ_STRING fp5 64 = Some (tty, fp6)"
       "request_fields fp6 [] rest"
       "fp6\<lparr>rbuf := rest\<rparr> = fp5\<lparr>rbuf := rest\<rparr>" by auto
  have "fp6 = fp\<lparr>rbuf := rest\<rparr>"
    using request_fields_Nil [OF 6(2)] 1(3) 2(3) 3(3) 4(3) 5(3) 6(3) by simp
  then show ?thesis
    by (simp add: nslcd_pam_authz_def 1(1) 2(1) 3(1) 4(1) 5(1) [simplified] 6(1))
qed

text \<open>
  Where the search denies, the handler writes the denial with its end marker and goes on
  to the success record and a second end marker.
\<close>

lemma authz_request_denied:
  assumes room: "wroom fp = None"
    and valid: "validate_user E session userdn 256 username 256 =
                  (Returns (LDAP_SUCCESS, dn', un'), calls)"
    and conf: "ldc_pam_authz_search (nslcd_cfg E) = Some searchfilter"
    and vars: "authz_vars E fqdn un' dn' servicename ruser rhost tty = (dict, fqdn')"
    and denied: "try_autzsearch E session dict searchfilter = (rc, search_calls)"
                "rc \<noteq> LDAP_SUCCESS"
  shows "authz_request E fp session fqdn username userdn servicename ruser rhost tty =
     Returns (0,
       fp\<lparr>wbuf := wbuf fp @ frames
            [W_INT32 (NSLCD_VERSION E), W_INT32 (NSLCD_ACTION_PAM_AUTHZ E),
             W_INT32 (NSLCD_RESULT_BEGIN E), W_STRING un', W_STRING dn',
             W_INT32 (NSLCD_PAM_PERM_DENIED E), W_STRING ''LDAP authorisation check failed'',
             W_INT32 (NSLCD_RESULT_END E),
             W_INT32 (NSLCD_RESULT_BEGIN E), W_STRING un', W_STRING dn',
             W_INT32 (NSLCD_PAM_SUCCESS E), W_STRING [], W_INT32 (NSLCD_RESULT_END E)]\<rparr>,
       calls @ search_calls, fqdn')"
  using room denied(2)
  by (simp add: authz_request_def authz_write_response_def WRITE_seq_frames valid conf vars
      denied(1) frames_Cons frames_Nil)


lemma outage_env_fields:
  "LOGIN_NAME_MAX outage_env = Some 256"
  "HOST_NAME_MAX outage_env = 64"
  "NSLCD_VERSION outage_env = 1"
  "NSLCD_ACTION_PAM_AUTHZ outage_env = 20002"
  "NSLCD_RESULT_BEGIN outage_env = 0"
  "NSLCD_RESULT_END outage_env = 3"
  "NSLCD_PAM_SUCCESS outage_env = 0"
  "NSLCD_PAM_PERM_DENIED outage_env = 6"
  "nslcd_cfg outage_env = example_cfg"
  "attmap_passwd_uid outage_env = ''uid''"
  "myldap_get_entry outage_env srch = (None, LDAP_UNAVAILABLE)"
  "myldap_search outage_env = myldap_search example_env"
  "myldap_cpy_dn outage_env = myldap_cpy_dn example_env"
  "myldap_get_rdn_value outage_env = myldap_get_rdn_value example_env"
  "myldap_escape outage_env = myldap_escape example_env"
  "uid2entry outage_env = uid2entry example_env"
  "expr_parse outage_env = expr_parse example_env"
  "malloc outage_env = malloc example_env"
  "gethostname outage_env = gethostname example_env"
  "gethostbyname outage_env = gethostbyname example_env"
  by (simp_all add: outage_env_def example_env_fields)

lemma outage_validate_alice:
  "validate_user outage_env example_session [] 256 ''alice'' 256 =
     (Returns (LDAP_SUCCESS, ''uid=alice,dc=example,dc=com'', ''alice''),
      [Uid2entry example_session ''alice''])"
  by (simp add: validate_user_def isvalidname_def isvalidname_loop.simps outage_env_fields
      example_env_fields example_dn_def c_at_def tolower_def less_eq_char_def ldap_codes)

lemma outage_authz_vars:
  "authz_vars outage_env None ''alice'' ''uid=alice,dc=example,dc=com'' ''sshd'' [] [] ''tty1'' =
     ([''username'' \<mapsto> ''alice'', ''service'' \<mapsto> ''sshd'', ''ruser'' \<mapsto> [],
       ''rhost'' \<mapsto> [], ''tty'' \<mapsto> ''tty1'', ''hostname'' \<mapsto> ''host1'',
       ''fqdn'' \<mapsto> ''host1.example.com'', ''dn'' \<mapsto> ''uid=alice,dc=example,dc=com'',
       ''uid'' \<mapsto> ''alice''],
      Some ''host1.example.com'')"
  by (simp add: authz_vars_def autzsearch_var_add_def getfqdn_def strdup_def strncasecmp_def
      outage_env_fields example_env_fields c_at_def tolower_def less_eq_char_def Let_def)

lemma outage_try_autzsearch:
  "try_autzsearch outage_env example_session
     [''username'' \<mapsto> ''alice'', ''service'' \<mapsto> ''sshd'', ''ruser'' \<mapsto> [],
      ''rhost'' \<mapsto> [], ''tty'' \<mapsto> ''tty1'', ''hostname'' \<mapsto> ''host1'',
      ''fqdn'' \<mapsto> ''host1.example.com'', ''dn'' \<mapsto> ''uid=alice,dc=example,dc=com'',
      ''uid'' \<mapsto> ''alice'']
     ''(&(objectClass=posixAccount)(uid=$username))'' =
   (LDAP_UNAVAILABLE,
    [Search example_session (Some ''dc=example,dc=com'') LDAP_SCOPE_SUBTREE
       ''(&(objectClass=posixAccount)(uid=alice))'',
     Get_entry 20])"
  by (simp add: try_autzsearch_def autzsearch_var_get_def outage_env_fields example_cfg_fields
      example_myldap_search example_expr_parse ldap_codes)

text \<open>
  C3. The claim asks for one result record and one end marker when the user is resolved
  and the authorisation search denies. In the sample deployment during the outage the
  search for \<open>alice\<close> fails with \<open>LDAP_UNAVAILABLE\<close>, and the response of
  \<open>nslcd_pam_authz\<close> holds the denial record with its end marker, then a success
  record and a second end marker.
\<close>

theorem authz_denial_then_success:
  "nslcd_pam_authz outage_env (request_stream [''alice'', [], ''sshd'', [], [], ''tty1''])
     example_session None =
   Returns (0,
     \<lparr>rbuf = [],
      wbuf = frames
        [W_INT32 1, W_INT32 20002,
         W_INT32 0, W_STRING ''alice'', W_STRING ''uid=alice,dc=example,dc=com'',
         W_INT32 6, W_STRING ''LDAP authorisation check failed'', W_INT32 3,
         W_INT32 0, W_STRING ''alice'', W_STRING ''uid=alice,dc=example,dc=com'',
         W_INT32 0, W_STRING [], W_INT32 3],
      wroom = None\<rparr>,
     [Uid2entry example_session ''alice'',
      Search example_session (Some ''dc=example,dc=com'') LDAP_SCOPE_SUBTREE
        ''(&(objectClass=posixAccount)(uid=alice))'',
      Get_entry 20],
     Some ''host1.example.com'')"
proof -
  let ?fp = "request_stream [''alice'', [], ''sshd'', [], [], ''tty1'']"
  have req: "request_fields ?fp
      [(''alice'', 256), ([], 256), (''sshd'', 64), ([], 256),
       ([], HOST_NAME_MAX outage_env + 1), (''tty1'', 64)] []"
    by (simp add: request_fields_def request_stream_def outage_env_fields)
  have room: "wroom (?fp\<lparr>rbuf := []\<rparr>) = None"
    by (simp add: request_stream_def)
  have denied: "LDAP_UNAVAILABLE \<noteq> LDAP_SUCCESS"
    by (simp add: ldap_codes)
  show ?thesis
    unfolding nslcd_pam_authz_reads [OF req, simplified outage_env_fields, simplified]
      authz_request_denied [OF room outage_validate_alice _ outage_authz_vars
        outage_try_autzsearch denied, simplified outage_env_fields example_cfg_fields, simplified]
    by (simp add: request_stream_def outage_env_fields)
qed

end
